theory Spec2Isabelle
  imports Main "HOL-Library.AList" "HOL-Library.Word"
begin

section \<open>Values shared by the backend modules\<close>

text \<open>
  The development follows \<^verbatim>\<open>backend/fastrtc_integration.py\<close> and the parts of
  \<^verbatim>\<open>backend/main.py\<close> that drive it. Python objects that are mutated in place are
  passed in and returned; a \<^verbatim>\<open>raise\<close> is the left injection of a sum; every call of
  \<^verbatim>\<open>datetime.utcnow()\<close> is an argument carrying the value read from the clock; the
  records written through \<^verbatim>\<open>logger\<close> are returned as a list, oldest first.
\<close>

type_synonym byte = "8 word"
type_synonym bytes = "byte list"

datatype exn =
    ValueError string
  | TypeError string
  | KeyError string
  | OverflowError
  | HTTPException nat string

datatype level = DEBUG | INFO | WARNING | ERROR

type_synonym log = "(level \<times> string) list"

subsection \<open>Decimal text of an integer\<close>

text \<open>\<^verbatim>\<open>str(n)\<close> for a Python int, as an f-string inserts it.\<close>

fun str_of_nat :: "nat \<Rightarrow> string" where
  "str_of_nat n =
     (if n < 10 then [''0123456789'' ! n]
      else str_of_nat (n div 10) @ [''0123456789'' ! (n mod 10)])"

definition str_of_int :: "int \<Rightarrow> string" where
  "str_of_int i = (if i < 0 then CHR ''-'' # str_of_nat (nat (- i)) else str_of_nat (nat i))"

subsection \<open>Naive datetimes\<close>

text \<open>
  A \<^verbatim>\<open>datetime\<close> without time zone, as \<^verbatim>\<open>datetime.utcnow()\<close> returns it. Two of them
  compare field by field, the year first.
\<close>

record datetime =
  year :: nat
  month :: nat
  day :: nat
  hour :: nat
  minute :: nat
  second :: nat
  microsecond :: nat

fun lex_less :: "nat list \<Rightarrow> nat list \<Rightarrow> bool" where
  "lex_less (x # xs) (y # ys) = (x < y \<or> (x = y \<and> lex_less xs ys))"
| "lex_less _ _ = False"

definition dt_fields :: "datetime \<Rightarrow> nat list" where
  "dt_fields d = [year d, month d, day d, hour d, minute d, second d, microsecond d]"

definition dt_less :: "datetime \<Rightarrow> datetime \<Rightarrow> bool" where
  "dt_less a b = lex_less (dt_fields a) (dt_fields b)"

text \<open>
  \<^verbatim>\<open>d.replace(minute=m)\<close>: the argument is converted to a C \<^verbatim>\<open>int\<close>, which raises
  \<^verbatim>\<open>OverflowError\<close> for a value that does not fit (its text differs between the versions
  of CPython and is left out); then the constructor checks the new field and raises
  \<^verbatim>\<open>ValueError\<close> outside \<^verbatim>\<open>0..59\<close> (the text is CPython's).
\<close>

definition replace_minute :: "datetime \<Rightarrow> int \<Rightarrow> exn + datetime" where
  "replace_minute d m =
     (if m < - 2147483648 \<or> 2147483647 < m then Inl OverflowError
      else if 0 \<le> m \<and> m \<le> 59 then Inr (d\<lparr>minute := nat m\<rparr>)
      else Inl (ValueError ''minute must be in 0..59''))"

declare str_of_nat.simps [simp del]

section \<open>FastRTCStream\<close>

record FastRTCStream =
  webrtc_id :: string
  modality :: string
  mode :: string
  is_active :: bool
  created_at :: datetime
  last_activity :: datetime
  audio_buffer :: "bytes list"
  processing :: bool

text \<open>\<^verbatim>\<open>__init__\<close> reads the clock twice, for \<^verbatim>\<open>created_at\<close> and for \<^verbatim>\<open>last_activity\<close>.\<close>

definition FastRTCStream_init ::
    "string \<Rightarrow> string \<Rightarrow> string \<Rightarrow> datetime \<Rightarrow> datetime \<Rightarrow> FastRTCStream" where
  "FastRTCStream_init wid modality' mode' t_created t_activity =
     \<lparr>webrtc_id = wid, modality = modality', mode = mode', is_active = False,
      created_at = t_created, last_activity = t_activity, audio_buffer = [],
      processing = False\<rparr>"

definition start_streaming :: "datetime \<Rightarrow> FastRTCStream \<Rightarrow> FastRTCStream \<times> log" where
  "start_streaming now s =
     (s\<lparr>is_active := True, last_activity := now\<rparr>,
      [(INFO, ''Started FastRTC stream for '' @ webrtc_id s)])"

definition stop_streaming :: "FastRTCStream \<Rightarrow> FastRTCStream \<times> log" where
  "stop_streaming s =
     (s\<lparr>is_active := False\<rparr>, [(INFO, ''Stopped FastRTC stream for '' @ webrtc_id s)])"

text \<open>
  Modelled from the spec: the external sink \<^verbatim>\<open>ExternalMediaProcessor.process(streamId, payload)\<close>.
  The source has no such call; inside the \<^verbatim>\<open>try\<close> of \<^verbatim>\<open>_process_buffer\<close>, after the
  chunks are joined, it says ``Here you would integrate with actual FastRTC processing''.
  The processing step that belongs there is a parameter: applied to the stream id and the
  joined payload it gives \<open>None\<close> when it returns and \<open>Some e\<close> when it raises an
  exception whose text is \<open>e\<close>. \<open>no_sink\<close> is the source as it stands.
\<close>

type_synonym sink = "string \<Rightarrow> bytes \<Rightarrow> string option"

definition no_sink :: sink where
  "no_sink wid payload = None"

text \<open>
  \<^verbatim>\<open>_process_buffer\<close>, statement by statement: the guard is set; the \<^verbatim>\<open>try\<close> body joins
  the chunks, runs the processing step, logs and empties the buffer; \<^verbatim>\<open>except Exception\<close>
  logs the error; \<^verbatim>\<open>finally\<close> clears the guard. \<open>process_buffer_run\<close> gives the stream
  object after each assignment to it, in the order of the assignments, the joined payload
  \<^verbatim>\<open>combined_audio\<close> and the records logged; \<open>process_buffer\<close> is the stream as the
  function leaves it, with the records.
\<close>

definition process_buffer_run :: "sink \<Rightarrow> FastRTCStream \<Rightarrow> FastRTCStream list \<times> bytes \<times> log" where
  "process_buffer_run snk s =
     (let s1 = s\<lparr>processing := True\<rparr>;
          combined_audio = concat (audio_buffer s1)
      in case snk (webrtc_id s1) combined_audio of
           None \<Rightarrow>
             (let s2 = s1\<lparr>audio_buffer := []\<rparr>;
                  s3 = s2\<lparr>processing := False\<rparr>
              in ([s1, s2, s3], combined_audio,
                  [(DEBUG, ''Processing '' @ str_of_nat (length combined_audio)
                             @ '' bytes of audio for '' @ webrtc_id s1)]))
         | Some e \<Rightarrow>
             (let s3 = s1\<lparr>processing := False\<rparr>
              in ([s1, s3], combined_audio,
                  [(ERROR, ''Error processing audio for '' @ webrtc_id s1 @ '': '' @ e)])))"

definition process_buffer :: "sink \<Rightarrow> FastRTCStream \<Rightarrow> FastRTCStream \<times> log" where
  "process_buffer snk s =
     (case process_buffer_run snk s of (states, combined_audio, lg) \<Rightarrow> (last states, lg))"

definition process_audio_data ::
    "sink \<Rightarrow> datetime \<Rightarrow> FastRTCStream \<Rightarrow> bytes \<Rightarrow> FastRTCStream \<times> log" where
  "process_audio_data snk now s audio_data =
     (if \<not> is_active s then (s, [])
      else
        let s1 = s\<lparr>last_activity := now, audio_buffer := audio_buffer s @ [audio_data]\<rparr>
        in if length (audio_buffer s1) \<ge> 10 \<and> \<not> processing s1
           then process_buffer snk s1
           else (s1, []))"

section \<open>FastRTCManager\<close>

text \<open>
  \<^verbatim>\<open>self.streams\<close> is a dict: a list of entries in insertion order whose keys are
  distinct. \<^verbatim>\<open>d[k] = v\<close> is \<open>AList.update\<close> (in place for a key that is there, at the end
  for a new one), \<^verbatim>\<open>del d[k]\<close> is \<open>AList.delete\<close>, \<^verbatim>\<open>d.get(k)\<close> is \<open>map_of\<close> and
  \<^verbatim>\<open>len(d)\<close> is the length of the list.
\<close>

record FastRTCManager =
  streams :: "(string \<times> FastRTCStream) list"
  max_streams :: nat

definition FastRTCManager_init :: FastRTCManager where
  "FastRTCManager_init = \<lparr>streams = [], max_streams = 100\<rparr>"

definition create_stream ::
    "FastRTCManager \<Rightarrow> string \<Rightarrow> string \<Rightarrow> string \<Rightarrow> datetime \<Rightarrow> datetime
      \<Rightarrow> exn + (FastRTCManager \<times> FastRTCStream \<times> log)" where
  "create_stream m wid modality' mode' t_created t_activity =
     (if wid = [] \<or> wid = ''None'' then
        Inl (ValueError ''Invalid webrtc_id: cannot be None or empty'')
      else if length (streams m) \<ge> max_streams m then
        Inl (ValueError ''Maximum number of streams reached'')
      else if map_of (streams m) wid \<noteq> None then
        Inl (ValueError (''Stream '' @ wid @ '' already exists''))
      else
        let stream = FastRTCStream_init wid modality' mode' t_created t_activity
        in Inr (m\<lparr>streams := AList.update wid stream (streams m)\<rparr>, stream,
                [(INFO, ''Created FastRTC stream '' @ wid)]))"

definition get_stream :: "FastRTCManager \<Rightarrow> string \<Rightarrow> FastRTCStream option" where
  "get_stream m wid = map_of (streams m) wid"

text \<open>
  A stream is an object that the dict refers to: a method that changes it changes the
  entry where it stands. \<open>put_stream\<close> writes the changed object back under its key.
\<close>

definition put_stream :: "FastRTCManager \<Rightarrow> string \<Rightarrow> FastRTCStream \<Rightarrow> FastRTCManager" where
  "put_stream m wid s = m\<lparr>streams := AList.update wid s (streams m)\<rparr>"

text \<open>
  \<^verbatim>\<open>remove_stream\<close> has no \<^verbatim>\<open>raise\<close>; its result is a sum so that the \<^verbatim>\<open>try\<close> around
  its call in \<^verbatim>\<open>main.py\<close> has something to catch. The stream object is stopped where it
  stands in the dict, then the entry is deleted.
\<close>

definition remove_stream :: "FastRTCManager \<Rightarrow> string \<Rightarrow> exn + (FastRTCManager \<times> log)" where
  "remove_stream m wid =
     (case map_of (streams m) wid of
        None \<Rightarrow> Inr (m, [])
      | Some stream \<Rightarrow>
          let (stream', lg) = stop_streaming stream;
              m1 = put_stream m wid stream';
              m2 = m1\<lparr>streams := AList.delete wid (streams m1)\<rparr>
          in Inr (m2, lg @ [(INFO, ''Removed FastRTC stream '' @ wid)]))"

definition process_audio ::
    "sink \<Rightarrow> datetime \<Rightarrow> FastRTCManager \<Rightarrow> string \<Rightarrow> bytes \<Rightarrow> FastRTCManager \<times> log" where
  "process_audio snk now m wid audio_data =
     (case get_stream m wid of
        Some stream \<Rightarrow>
          let (stream', lg) = process_audio_data snk now stream audio_data
          in (put_stream m wid stream', lg)
      | None \<Rightarrow> (m, [(WARNING, ''Stream '' @ wid @ '' not found'')]))"

text \<open>The second loop of \<^verbatim>\<open>cleanup_inactive_streams\<close>: one \<^verbatim>\<open>remove_stream\<close> per collected id.\<close>

fun remove_streams :: "FastRTCManager \<Rightarrow> string list \<Rightarrow> exn + (FastRTCManager \<times> log)" where
  "remove_streams m [] = Inr (m, [])"
| "remove_streams m (wid # wids) =
     (case remove_stream m wid of
        Inl e \<Rightarrow> Inl e
      | Inr (m', lg) \<Rightarrow>
          (case remove_streams m' wids of
             Inl e \<Rightarrow> Inl e
           | Inr (m'', lg') \<Rightarrow> Inr (m'', lg @ lg')))"

definition cleanup_inactive_streams ::
    "datetime \<Rightarrow> FastRTCManager \<Rightarrow> int \<Rightarrow> exn + (FastRTCManager \<times> log)" where
  "cleanup_inactive_streams now m max_inactive_minutes =
     (case replace_minute now (int (minute now) - max_inactive_minutes) of
        Inl e \<Rightarrow> Inl e
      | Inr cutoff_time \<Rightarrow>
          let streams_to_remove =
                map fst (filter (\<lambda>(wid, stream). dt_less (last_activity stream) cutoff_time)
                           (streams m))
          in (case remove_streams m streams_to_remove of
                Inl e \<Rightarrow> Inl e
              | Inr (m', lg) \<Rightarrow>
                  Inr (m', lg @
                    (if streams_to_remove \<noteq> [] then
                       [(INFO, ''Cleaned up '' @ str_of_nat (length streams_to_remove)
                                 @ '' inactive streams'')]
                     else []))))"

section \<open>Values of parsed JSON\<close>

text \<open>
  What \<^verbatim>\<open>json.loads\<close> gives and \<^verbatim>\<open>json.dumps\<close> takes, floats left out. A \<open>char\<close> of a
  \<open>PStr\<close> is one code point below 256.
\<close>

datatype pyval =
    PNone
  | PBool bool
  | PInt int
  | PStr string
  | PList "pyval list"
  | PDict "(string \<times> pyval) list"

text \<open>The truth value that \<^verbatim>\<open>if v:\<close> tests.\<close>

fun truthy :: "pyval \<Rightarrow> bool" where
  "truthy PNone = False"
| "truthy (PBool b) = b"
| "truthy (PInt i) = (i \<noteq> 0)"
| "truthy (PStr s) = (s \<noteq> [])"
| "truthy (PList xs) = (xs \<noteq> [])"
| "truthy (PDict kvs) = (kvs \<noteq> [])"

text \<open>\<^verbatim>\<open>sep.join(parts)\<close>.\<close>

fun join :: "string \<Rightarrow> string list \<Rightarrow> string" where
  "join sep [] = []"
| "join sep [x] = x"
| "join sep (x # y # ys) = x @ sep @ join sep (y # ys)"

text \<open>
  \<^verbatim>\<open>repr\<close> of a str: single quotes, unless the text has a single quote and no double
  quote; the quote in use and the backslash are escaped; tab, newline and carriage
  return have their letters; every other code point that is not printable is
  \<^verbatim>\<open>\xNN\<close>.
\<close>

definition hex2 :: "nat \<Rightarrow> string" where
  "hex2 n = [''0123456789abcdef'' ! (n div 16 mod 16), ''0123456789abcdef'' ! (n mod 16)]"

definition printable :: "char \<Rightarrow> bool" where
  "printable c =
     (let n = (of_char c :: nat) in (32 \<le> n \<and> n < 127) \<or> (161 \<le> n \<and> n \<noteq> 173))"

definition repr_char :: "char \<Rightarrow> char \<Rightarrow> string" where
  "repr_char q c =
     (if c = q \<or> c = CHR 0x5C then [CHR 0x5C, c]
      else if c = CHR 0x09 then [CHR 0x5C, CHR ''t'']
      else if c = CHR 0x0A then [CHR 0x5C, CHR ''n'']
      else if c = CHR 0x0D then [CHR 0x5C, CHR ''r'']
      else if printable c then [c]
      else [CHR 0x5C, CHR ''x''] @ hex2 (of_char c))"

definition repr_str :: "string \<Rightarrow> string" where
  "repr_str s =
     (let q = (if CHR 0x27 \<in> set s \<and> CHR 0x22 \<notin> set s then CHR 0x22 else CHR 0x27)
      in [q] @ concat (map (repr_char q) s) @ [q])"

fun py_repr :: "pyval \<Rightarrow> string" where
  "py_repr PNone = ''None''"
| "py_repr (PBool b) = (if b then ''True'' else ''False'')"
| "py_repr (PInt i) = str_of_int i"
| "py_repr (PStr s) = repr_str s"
| "py_repr (PList xs) = ''['' @ join '', '' (map py_repr xs) @ '']''"
| "py_repr (PDict kvs) =
     ''{'' @ join '', '' (map (\<lambda>kv. repr_str (fst kv) @ '': '' @ py_repr (snd kv)) kvs) @ ''}''"

text \<open>\<^verbatim>\<open>str(v)\<close>, which an f-string inserts: the text itself for a str.\<close>

definition py_str :: "pyval \<Rightarrow> string" where
  "py_str v = (case v of PStr s \<Rightarrow> s | _ \<Rightarrow> py_repr v)"

text \<open>\<^verbatim>\<open>d.get(key, default)\<close> on a dict with str keys.\<close>

definition dict_get :: "(string \<times> 'v) list \<Rightarrow> string \<Rightarrow> 'v \<Rightarrow> 'v" where
  "dict_get d key dflt = (case map_of d key of None \<Rightarrow> dflt | Some v \<Rightarrow> v)"

subsection \<open>\<^verbatim>\<open>isoformat\<close>\<close>

definition zfill :: "nat \<Rightarrow> string \<Rightarrow> string" where
  "zfill w s = replicate (w - length s) CHR ''0'' @ s"

definition isoformat :: "datetime \<Rightarrow> string" where
  "isoformat d =
     zfill 4 (str_of_nat (year d)) @ ''-'' @ zfill 2 (str_of_nat (month d)) @ ''-''
     @ zfill 2 (str_of_nat (day d)) @ ''T'' @ zfill 2 (str_of_nat (hour d)) @ '':''
     @ zfill 2 (str_of_nat (minute d)) @ '':'' @ zfill 2 (str_of_nat (second d))
     @ (if microsecond d \<noteq> 0 then ''.'' @ zfill 6 (str_of_nat (microsecond d)) else [])"

section \<open>The message handler of the FastRTC protocol\<close>

text \<open>
  \<^verbatim>\<open>fastrtc_manager.get_stream(webrtc_id)\<close> with a value taken from a message: the dict
  hashes its key, so a list or a dict raises \<^verbatim>\<open>TypeError\<close> (the text is CPython's); a
  key that is no str is equal to no key of \<^verbatim>\<open>self.streams\<close>.
\<close>

definition get_stream_key :: "FastRTCManager \<Rightarrow> pyval \<Rightarrow> exn + FastRTCStream option" where
  "get_stream_key m k =
     (case k of
        PStr s \<Rightarrow> Inr (get_stream m s)
      | PList xs \<Rightarrow> Inl (TypeError (''unhashable type: '' @ [CHR 0x27] @ ''list'' @ [CHR 0x27]))
      | PDict kvs \<Rightarrow> Inl (TypeError (''unhashable type: '' @ [CHR 0x27] @ ''dict'' @ [CHR 0x27]))
      | _ \<Rightarrow> Inr None)"

definition get_status :: "FastRTCStream \<Rightarrow> pyval" where
  "get_status s =
     PDict [(''webrtc_id'', PStr (webrtc_id s)),
            (''modality'', PStr (modality s)),
            (''mode'', PStr (mode s)),
            (''is_active'', PBool (is_active s)),
            (''created_at'', PStr (isoformat (created_at s))),
            (''last_activity'', PStr (isoformat (last_activity s))),
            (''buffer_size'', PInt (int (length (audio_buffer s)))),
            (''processing'', PBool (processing s))]"

text \<open>
  A message is the dict that \<^verbatim>\<open>json.loads\<close> gave. The function returns what its
  \<^verbatim>\<open>return\<close> statements return; where the \<^verbatim>\<open>if\<close> chain is left without one, Python
  returns \<^verbatim>\<open>None\<close>.
\<close>

definition handle_fastrtc_message ::
    "FastRTCManager \<Rightarrow> (string \<times> pyval) list \<Rightarrow> exn + (pyval \<times> log)" where
  "handle_fastrtc_message fm message =
     (let message_type = dict_get message ''type'' PNone in
      if message_type = PStr ''send_input'' then
        (let wid = dict_get message ''webrtc_id'' PNone;
             data = dict_get message ''data'' (PDict [])
         in if truthy wid then
              (case get_stream_key fm wid of
                 Inl e \<Rightarrow> Inl e
               | Inr (Some stream) \<Rightarrow>
                   Inr (PDict [(''status'', PStr ''success''),
                               (''message'', PStr ''Input processed'')],
                        [(INFO, ''Received input data for stream '' @ py_str wid)])
               | Inr None \<Rightarrow>
                   Inr (PDict [(''status'', PStr ''error''),
                               (''message'', PStr ''Stream not found'')], []))
            else Inr (PNone, []))
      else if message_type = PStr ''fetch_output'' then
        (let wid = dict_get message ''webrtc_id'' PNone
         in if truthy wid then
              (case get_stream_key fm wid of
                 Inl e \<Rightarrow> Inl e
               | Inr (Some stream) \<Rightarrow>
                   Inr (PDict [(''status'', PStr ''success''),
                               (''output'', PDict [(''stream_id'', wid),
                                                   (''status'', get_status stream)])], [])
               | Inr None \<Rightarrow>
                   Inr (PDict [(''status'', PStr ''error''),
                               (''message'', PStr ''Stream not found'')], []))
            else Inr (PNone, []))
      else if message_type = PStr ''stopword'' then
        (let wid = dict_get message ''webrtc_id'' PNone
         in Inr (PDict [(''status'', PStr ''success''),
                        (''message'', PStr ''Stopword detected'')],
                 [(INFO, ''Stopword detected for stream '' @ py_str wid)]))
      else if message_type = PStr ''error'' then
        (let error_message = dict_get message ''data'' (PStr ''Unknown error'')
         in Inr (PDict [(''status'', PStr ''error''), (''message'', error_message)],
                 [(ERROR, ''FastRTC error: '' @ py_str error_message)]))
      else if message_type = PStr ''warning'' then
        (let warning_message = dict_get message ''data'' (PStr ''Unknown warning'')
         in Inr (PDict [(''status'', PStr ''warning''), (''message'', warning_message)],
                 [(WARNING, ''FastRTC warning: '' @ py_str warning_message)]))
      else if message_type = PStr ''log'' then
        (let log_message = dict_get message ''data'' (PStr [])
         in Inr (PDict [(''status'', PStr ''success''), (''message'', PStr ''Log recorded'')],
                 [(INFO, ''FastRTC log: '' @ py_str log_message)]))
      else
        Inr (PDict [(''status'', PStr ''error''),
                    (''message'', PStr (''Unknown message type: '' @ py_str message_type))],
             []))"

section \<open>The answer to an offer\<close>

definition sdp_lines :: "string \<Rightarrow> string list" where
  "sdp_lines wid =
     [''v=0'',
      ''o=- '' @ wid @ '' 2 IN IP4 127.0.0.1'',
      ''s=-'',
      ''t=0 0'',
      ''a=group:BUNDLE audio'',
      ''a=extmap-allow-mixed'',
      ''a=msid-semantic: WMS'',
      ''m=audio 9 UDP/TLS/RTP/SAVPF 111'',
      ''c=IN IP4 0.0.0.0'',
      ''a=mid:audio'',
      ''a=sendrecv'',
      ''a=rtpmap:111 opus/48000/2'',
      ''a=fmtp:111 minptime=10;useinbandfec=1'',
      ''a=ssrc:1 cname:fastrtc-audio'',
      ''a=ssrc:1 msid:fastrtc-audio audio'',
      ''a=ssrc:1 mslabel:fastrtc-audio'',
      ''a=label:audio'',
      ''a=rtcp-mux'']"

text \<open>
  \<^verbatim>\<open>create_webrtc_answer\<close>. The text of \<^verbatim>\<open>uuid.uuid4()\<close> is the argument \<open>uuid\<close>; an
  offer carries the strings of \<^verbatim>\<open>main.py\<close>'s \<^verbatim>\<open>WebRTCOffer\<close>. The call of
  \<^verbatim>\<open>create_stream\<close> stands in no \<^verbatim>\<open>try\<close>: what it raises leaves the function.
\<close>

definition create_webrtc_answer ::
    "FastRTCManager \<Rightarrow> (string \<times> string) list \<Rightarrow> string \<Rightarrow> datetime \<Rightarrow> datetime \<Rightarrow> datetime
      \<Rightarrow> exn + (FastRTCManager \<times> pyval \<times> log)" where
  "create_webrtc_answer fm offer uuid t_created t_activity t_meta =
     (let wid = uuid;
          modality' = dict_get offer ''modality'' ''audio'';
          mode' = dict_get offer ''mode'' ''send''
      in case create_stream fm wid modality' mode' t_created t_activity of
           Inl e \<Rightarrow> Inl e
         | Inr (fm', stream, lg) \<Rightarrow>
             (let sdp_answer = join [CHR 0x0A] (sdp_lines wid)
              in Inr (fm',
                      PDict [(''status'', PStr ''success''),
                             (''sdp'', PStr sdp_answer),
                             (''webrtc_id'', PStr wid),
                             (''meta'', PDict [(''modality'', PStr modality'),
                                               (''mode'', PStr mode'),
                                               (''created_at'', PStr (isoformat t_meta))])],
                      lg @ [(INFO, ''Generated SDP answer: '' @ sdp_answer)])))"

section \<open>The endpoints of \<^verbatim>\<open>main.py\<close> that use the manager\<close>

text \<open>
  \<^verbatim>\<open>DELETE /fastrtc/streams/{webrtc_id}\<close>: whatever \<^verbatim>\<open>remove_stream\<close> raises becomes
  the HTTP error 404.
\<close>

definition remove_fastrtc_stream ::
    "FastRTCManager \<Rightarrow> string \<Rightarrow> exn + (FastRTCManager \<times> pyval \<times> log)" where
  "remove_fastrtc_stream fm wid =
     (case remove_stream fm wid of
        Inr (fm', lg) \<Rightarrow>
          Inr (fm',
               PDict [(''status'', PStr ''success''),
                      (''message'', PStr (''Stream '' @ wid @ '' removed''))],
               lg)
      | Inl e \<Rightarrow> Inl (HTTPException 404 (''Stream '' @ wid @ '' not found'')))"

text \<open>
  The connection manager. A websocket is the list of the values sent through it, oldest
  first: \<^verbatim>\<open>send_text(json.dumps(v))\<close> adds \<open>v\<close>. The key \<^verbatim>\<open>"last_activity"\<close> of a
  connection's metadata is the field \<open>conn_last_activity\<close>.
\<close>

type_synonym websocket = "pyval list"

record conn_metadata =
  connected_at :: datetime
  conn_last_activity :: datetime
  audio_streaming :: bool

record ConnectionManager =
  active_connections :: "(string \<times> websocket) list"
  connection_metadata :: "(string \<times> conn_metadata) list"

definition send_personal_message ::
    "ConnectionManager \<Rightarrow> pyval \<Rightarrow> string \<Rightarrow> ConnectionManager" where
  "send_personal_message cm message client_id =
     (case map_of (active_connections cm) client_id of
        Some ws \<Rightarrow>
          cm\<lparr>active_connections := AList.update client_id (ws @ [message]) (active_connections cm)\<rparr>
      | None \<Rightarrow> cm)"

text \<open>\<^verbatim>\<open>manager.connection_metadata[client_id]["audio_streaming"] = b\<close>.\<close>

definition set_audio_streaming ::
    "ConnectionManager \<Rightarrow> string \<Rightarrow> bool \<Rightarrow> exn + ConnectionManager" where
  "set_audio_streaming cm client_id b =
     (case map_of (connection_metadata cm) client_id of
        None \<Rightarrow> Inl (KeyError client_id)
      | Some md \<Rightarrow>
          Inr (cm\<lparr>connection_metadata :=
                     AList.update client_id (md\<lparr>audio_streaming := b\<rparr>) (connection_metadata cm)\<rparr>))"

text \<open>
  The block \<^verbatim>\<open>if webrtc_id: stream = await get_stream(webrtc_id); if stream: await
  stream.start_streaming()\<close> of the branch \<^verbatim>\<open>start_streaming\<close>, and its twin of the branch
  \<^verbatim>\<open>stop_streaming\<close>.
\<close>

definition start_stream_of ::
    "FastRTCManager \<Rightarrow> pyval \<Rightarrow> datetime \<Rightarrow> exn + (FastRTCManager \<times> log)" where
  "start_stream_of fm wid now =
     (if truthy wid then
        (case get_stream_key fm wid of
           Inl e \<Rightarrow> Inl e
         | Inr None \<Rightarrow> Inr (fm, [])
         | Inr (Some stream) \<Rightarrow>
             (let (stream', lg) = start_streaming now stream
              in Inr (put_stream fm (py_str wid) stream', lg)))
      else Inr (fm, []))"

definition stop_stream_of :: "FastRTCManager \<Rightarrow> pyval \<Rightarrow> exn + (FastRTCManager \<times> log)" where
  "stop_stream_of fm wid =
     (if truthy wid then
        (case get_stream_key fm wid of
           Inl e \<Rightarrow> Inl e
         | Inr None \<Rightarrow> Inr (fm, [])
         | Inr (Some stream) \<Rightarrow>
             (let (stream', lg) = stop_streaming stream
              in Inr (put_stream fm (py_str wid) stream', lg)))
      else Inr (fm, []))"

text \<open>
  \<^verbatim>\<open>handle_control_message\<close>. \<open>t_stream\<close> is the clock as \<^verbatim>\<open>start_streaming\<close> reads
  it, \<open>t_stamp\<close> the clock of the reply's \<^verbatim>\<open>timestamp\<close>.
\<close>

definition handle_control_message ::
    "ConnectionManager \<Rightarrow> FastRTCManager \<Rightarrow> string \<Rightarrow> (string \<times> pyval) list
      \<Rightarrow> datetime \<Rightarrow> datetime \<Rightarrow> exn + (ConnectionManager \<times> FastRTCManager \<times> log)" where
  "handle_control_message cm fm client_id message t_stream t_stamp =
     (let message_type = dict_get message ''type'' PNone in
      if message_type = PStr ''start_streaming'' then
        (case set_audio_streaming cm client_id True of
           Inl e \<Rightarrow> Inl e
         | Inr cm1 \<Rightarrow>
             (case start_stream_of fm (dict_get message ''webrtc_id'' PNone) t_stream of
                Inl e \<Rightarrow> Inl e
              | Inr (fm', lg) \<Rightarrow>
                  Inr (send_personal_message cm1
                         (PDict [(''type'', PStr ''streaming_started''),
                                 (''client_id'', PStr client_id),
                                 (''timestamp'', PStr (isoformat t_stamp))])
                         client_id,
                       fm',
                       lg @ [(INFO, ''Audio streaming started for client '' @ client_id)])))
      else if message_type = PStr ''stop_streaming'' then
        (case set_audio_streaming cm client_id False of
           Inl e \<Rightarrow> Inl e
         | Inr cm1 \<Rightarrow>
             (case stop_stream_of fm (dict_get message ''webrtc_id'' PNone) of
                Inl e \<Rightarrow> Inl e
              | Inr (fm', lg) \<Rightarrow>
                  Inr (send_personal_message cm1
                         (PDict [(''type'', PStr ''streaming_stopped''),
                                 (''client_id'', PStr client_id),
                                 (''timestamp'', PStr (isoformat t_stamp))])
                         client_id,
                       fm',
                       lg @ [(INFO, ''Audio streaming stopped for client '' @ client_id)])))
      else if message_type = PStr ''ping'' then
        Inr (send_personal_message cm
               (PDict [(''type'', PStr ''pong''), (''timestamp'', PStr (isoformat t_stamp))])
               client_id,
             fm, [])
      else
        Inr (cm, fm,
             [(WARNING, ''Unknown message type from client '' @ client_id @ '': ''
                          @ py_str message_type)]))"

section \<open>Sequences of calls\<close>


text \<open>One \<^verbatim>\<open>create_stream\<close> after the other; the first that raises ends the sequence.\<close>

type_synonym request = "string \<times> string \<times> string \<times> datetime \<times> datetime"

fun create_streams :: "FastRTCManager \<Rightarrow> request list \<Rightarrow> exn + FastRTCManager" where
  "create_streams m [] = Inr m"
| "create_streams m ((wid, modality', mode', t_created, t_activity) # rest) =
     (case create_stream m wid modality' mode' t_created t_activity of
        Inl e \<Rightarrow> Inl e
      | Inr (m', stream, lg) \<Rightarrow> create_streams m' rest)"

text \<open>
  The calls that reach the manager, and the manager after each. Every function above
  raises, if it does, before it has changed the manager: after a call that raised, the
  manager is the one before the call.
\<close>

datatype call =
    Create string string string datetime datetime
  | Answer "(string \<times> string) list" string datetime datetime datetime
  | Remove string
  | Delete string
  | ProcessAudio datetime string bytes
  | Cleanup datetime int
  | Start pyval datetime
  | Stop pyval

fun step :: "sink \<Rightarrow> FastRTCManager \<Rightarrow> call \<Rightarrow> FastRTCManager" where
  "step snk m (Create wid modality' mode' t_created t_activity) =
     (case create_stream m wid modality' mode' t_created t_activity of
        Inl e \<Rightarrow> m | Inr (m', stream, lg) \<Rightarrow> m')"
| "step snk m (Answer offer uuid t_created t_activity t_meta) =
     (case create_webrtc_answer m offer uuid t_created t_activity t_meta of
        Inl e \<Rightarrow> m | Inr (m', answer, lg) \<Rightarrow> m')"
| "step snk m (Remove wid) =
     (case remove_stream m wid of Inl e \<Rightarrow> m | Inr (m', lg) \<Rightarrow> m')"
| "step snk m (Delete wid) =
     (case remove_fastrtc_stream m wid of Inl e \<Rightarrow> m | Inr (m', response, lg) \<Rightarrow> m')"
| "step snk m (ProcessAudio now wid chunk) = fst (process_audio snk now m wid chunk)"
| "step snk m (Cleanup now max_inactive_minutes) =
     (case cleanup_inactive_streams now m max_inactive_minutes of
        Inl e \<Rightarrow> m | Inr (m', lg) \<Rightarrow> m')"
| "step snk m (Start wid now) =
     (case start_stream_of m wid now of Inl e \<Rightarrow> m | Inr (m', lg) \<Rightarrow> m')"
| "step snk m (Stop wid) =
     (case stop_stream_of m wid of Inl e \<Rightarrow> m | Inr (m', lg) \<Rightarrow> m')"

fun run :: "sink \<Rightarrow> FastRTCManager \<Rightarrow> call list \<Rightarrow> FastRTCManager" where
  "run snk m [] = m"
| "run snk m (c # cs) = run snk (step snk m c) cs"

text \<open>
  What makes the list of entries a registry: no key twice, every stream filed under its
  own id, and no more entries than \<^verbatim>\<open>max_streams\<close>.
\<close>

definition registry_inv :: "FastRTCManager \<Rightarrow> bool" where
  "registry_inv m =
     (distinct (map fst (streams m))
      \<and> list_all (\<lambda>(wid, stream). webrtc_id stream = wid) (streams m)
      \<and> length (streams m) \<le> max_streams m)"

section \<open>Sample values\<close>

definition noon :: datetime where
  "noon = \<lparr>year = 2024, month = 1, day = 1, hour = 12, minute = 0, second = 0, microsecond = 0\<rparr>"

definition at_minute :: "nat \<Rightarrow> nat \<Rightarrow> datetime" where
  "at_minute h mi = noon\<lparr>hour := h, minute := mi\<rparr>"

text \<open>A manager whose hundred places are taken by the streams \<^verbatim>\<open>"0"\<close> to \<^verbatim>\<open>"99"\<close>.\<close>

definition full_manager :: FastRTCManager where
  "full_manager =
     \<lparr>streams = map (\<lambda>n. (str_of_nat n, FastRTCStream_init (str_of_nat n) ''audio'' ''send'' noon noon))
                    [0..<100],
      max_streams = 100\<rparr>"

text \<open>A connection manager with the one client \<^verbatim>\<open>"c1"\<close>, connected at noon.\<close>

definition one_client :: ConnectionManager where
  "one_client =
     \<lparr>active_connections = [(''c1'', [])],
      connection_metadata =
        [(''c1'', \<lparr>connected_at = noon, conn_last_activity = noon, audio_streaming = False\<rparr>)]\<rparr>"


text \<open>
  The stream \<^verbatim>\<open>"a"\<close> in a manager: as \<^verbatim>\<open>create_stream\<close> leaves it, and after
  \<^verbatim>\<open>start_streaming\<close>; nine chunks of one byte, one a minute; the started stream with
  ten chunks in its buffer.
\<close>

definition idle_manager :: FastRTCManager where
  "idle_manager =
     \<lparr>streams = [(''a'', FastRTCStream_init ''a'' ''audio'' ''send'' noon noon)],
      max_streams = 100\<rparr>"

definition live_stream :: FastRTCStream where
  "live_stream = (FastRTCStream_init ''a'' ''audio'' ''send'' noon noon)\<lparr>is_active := True\<rparr>"

definition live_manager :: FastRTCManager where
  "live_manager = \<lparr>streams = [(''a'', live_stream)], max_streams = 100\<rparr>"


text \<open>An empty manager that is set to hold two streams.\<close>

definition small_manager :: FastRTCManager where
  "small_manager = \<lparr>streams = [], max_streams = 2\<rparr>"

text \<open>
  Two streams that were never started: \<^verbatim>\<open>"old"\<close>, last active at 12:14, and
  \<^verbatim>\<open>"new"\<close>, last active at 12:16.
\<close>

definition sweep_manager :: FastRTCManager where
  "sweep_manager =
     \<lparr>streams =
        [(''old'', FastRTCStream_init ''old'' ''audio'' ''send'' noon (at_minute 12 14)),
         (''new'', FastRTCStream_init ''new'' ''audio'' ''send'' noon (at_minute 12 16))],
      max_streams = 100\<rparr>"


section \<open>The dict of streams\<close>

lemma update_absent:
  "map_of al k = None \<Longrightarrow> AList.update k v al = al @ [(k, v)]"
  by (induction al) (auto split: if_splits)

lemma put_stream_same: "get_stream m wid = Some s \<Longrightarrow> put_stream m wid s = m"
  by (simp add: put_stream_def get_stream_def update_triv)


lemma get_put_stream_other:
  "wid' \<noteq> wid \<Longrightarrow> get_stream (put_stream m wid s) wid' = get_stream m wid'"
  by (simp add: put_stream_def get_stream_def update_conv')


section \<open>Creation\<close>

lemma create_stream_new:
  assumes "wid \<noteq> []" "wid \<noteq> ''None''" "length (streams m) < max_streams m"
    and "get_stream m wid = None"
  shows "create_stream m wid md mo t1 t2 =
     Inr (m\<lparr>streams := streams m @ [(wid, FastRTCStream_init wid md mo t1 t2)]\<rparr>,
          FastRTCStream_init wid md mo t1 t2, [(INFO, ''Created FastRTC stream '' @ wid)])"
  using assms
  by (simp add: create_stream_def Let_def get_stream_def update_absent)

lemma create_stream_InrD:
  assumes "create_stream m wid md mo t1 t2 = Inr (m', s, lg)"
  shows "wid \<noteq> [] \<and> wid \<noteq> ''None'' \<and> length (streams m) < max_streams m
    \<and> get_stream m wid = None"
  using assms by (auto simp: create_stream_def get_stream_def Let_def split: if_splits)

section \<open>Audio for a stream that has not been started\<close>

lemma process_audio_data_inactive:
  "\<not> is_active s \<Longrightarrow> process_audio_data snk now s chunk = (s, [])"
  by (simp add: process_audio_data_def)

lemma process_audio_inactive:
  "get_stream m wid = Some s \<Longrightarrow> \<not> is_active s \<Longrightarrow> process_audio snk now m wid chunk = (m, [])"
  by (simp add: process_audio_def process_audio_data_inactive put_stream_same)

text \<open>
  Claim C10. The stream that \<^verbatim>\<open>create_stream\<close> returns is not active, its buffer is empty
  and its guard \<^verbatim>\<open>processing\<close> is off. A stream that is not active takes no audio:
  \<^verbatim>\<open>process_audio_data\<close> returns the stream as it was (no chunk buffered, \<^verbatim>\<open>last_activity\<close>
  as before) and logs nothing, so no flush ran; the manager that holds such a stream is
  unchanged by \<^verbatim>\<open>process_audio\<close>. Audio that arrives between the creation and
  \<^verbatim>\<open>start_streaming\<close> is dropped without a trace.
\<close>

theorem created_stream_discards_audio:
  "(create_stream m wid md mo t1 t2 = Inr (m', s0, lg) \<longrightarrow>
      \<not> is_active s0 \<and> audio_buffer s0 = [] \<and> \<not> processing s0
      \<and> get_stream m' wid = Some s0
      \<and> process_audio_data snk now s0 chunk = (s0, [])
      \<and> process_audio snk now m' wid chunk = (m', []))
   \<and> (\<not> is_active s \<longrightarrow> process_audio_data snk now s chunk = (s, []))
   \<and> (get_stream m wid' = Some s \<and> \<not> is_active s \<longrightarrow>
        process_audio snk now m wid' chunk = (m, []))"
proof (intro conjI impI)
  assume c: "create_stream m wid md mo t1 t2 = Inr (m', s0, lg)"
  from create_stream_InrD [OF c] have ok: "wid \<noteq> []" "wid \<noteq> ''None''"
    "length (streams m) < max_streams m" "get_stream m wid = None" by simp_all
  from c create_stream_new [OF ok, of md mo t1 t2]
  have s0: "s0 = FastRTCStream_init wid md mo t1 t2"
    and m': "m' = m\<lparr>streams := streams m @ [(wid, s0)]\<rparr>" by auto
  show a: "\<not> is_active s0" and "audio_buffer s0 = []" and "\<not> processing s0"
    by (simp_all add: s0 FastRTCStream_init_def)
  show g: "get_stream m' wid = Some s0"
    using ok(4) by (simp add: m' get_stream_def map_add_def)
  show "process_audio_data snk now s0 chunk = (s0, [])"
    using a by (rule process_audio_data_inactive)
  show "process_audio snk now m' wid chunk = (m', [])"
    using g a by (rule process_audio_inactive)
next
  assume "\<not> is_active s"
  then show "process_audio_data snk now s chunk = (s, [])"
    by (rule process_audio_data_inactive)
next
  assume "get_stream m wid' = Some s \<and> \<not> is_active s"
  then show "process_audio snk now m wid' chunk = (m, [])"
    by (simp add: process_audio_inactive)
qed

theorem created_stream_discards_audio_witness:
  "create_stream FastRTCManager_init ''a'' ''audio'' ''send'' noon noon
     = Inr (\<lparr>streams = [(''a'', FastRTCStream_init ''a'' ''audio'' ''send'' noon noon)],
             max_streams = 100\<rparr>,
            FastRTCStream_init ''a'' ''audio'' ''send'' noon noon,
            [(INFO, ''Created FastRTC stream a'')])
   \<and> \<not> is_active (FastRTCStream_init ''a'' ''audio'' ''send'' noon noon)
   \<and> process_audio no_sink (at_minute 12 5)
        \<lparr>streams = [(''a'', FastRTCStream_init ''a'' ''audio'' ''send'' noon noon)],
         max_streams = 100\<rparr> ''a'' [1, 2, 3]
      = (\<lparr>streams = [(''a'', FastRTCStream_init ''a'' ''audio'' ''send'' noon noon)],
          max_streams = 100\<rparr>, [])"
proof -
  have c: "create_stream FastRTCManager_init ''a'' ''audio'' ''send'' noon noon
     = Inr (\<lparr>streams = [(''a'', FastRTCStream_init ''a'' ''audio'' ''send'' noon noon)],
             max_streams = 100\<rparr>,
            FastRTCStream_init ''a'' ''audio'' ''send'' noon noon,
            [(INFO, ''Created FastRTC stream a'')])"
    by (simp add: create_stream_def FastRTCManager_init_def Let_def)
  from c created_stream_discards_audio
    [where m = FastRTCManager_init and wid = "''a''" and md = "''audio''" and mo = "''send''"
       and ?t1.0 = noon and ?t2.0 = noon and snk = no_sink and now = "at_minute 12 5"
       and chunk = "[1, 2, 3]"]
  show ?thesis by simp
qed

section \<open>Buffering and flushing\<close>

text \<open>Updates of different fields of a stream, brought into one order.\<close>

lemma stream_upd_comm:
  "s\<lparr>processing := p, last_activity := t\<rparr> = s\<lparr>last_activity := t, processing := p\<rparr>"
  "s\<lparr>processing := p, audio_buffer := b\<rparr> = s\<lparr>audio_buffer := b, processing := p\<rparr>"
  "s\<lparr>audio_buffer := b, last_activity := t\<rparr> = s\<lparr>last_activity := t, audio_buffer := b\<rparr>"
  "s\<lparr>processing := p, is_active := a\<rparr> = s\<lparr>is_active := a, processing := p\<rparr>"
  "s\<lparr>audio_buffer := b, is_active := a\<rparr> = s\<lparr>is_active := a, audio_buffer := b\<rparr>"
  "s\<lparr>last_activity := t, is_active := a\<rparr> = s\<lparr>is_active := a, last_activity := t\<rparr>"
  by (cases s, simp)+



lemma process_buffer_frame:
  "processing (fst (process_buffer snk s)) = False"
  "is_active (fst (process_buffer snk s)) = is_active s"
  "webrtc_id (fst (process_buffer snk s)) = webrtc_id s"
  "last_activity (fst (process_buffer snk s)) = last_activity s"
  "length (snd (process_buffer snk s)) = 1"
  by (simp_all add: process_buffer_def process_buffer_run_def Let_def split: option.split)



lemma process_audio_unknown:
  "get_stream m wid = None \<Longrightarrow>
   process_audio snk now m wid chunk = (m, [(WARNING, ''Stream '' @ wid @ '' not found'')])"
  by (simp add: process_audio_def)

lemma process_audio_known:
  "get_stream m wid = Some s \<Longrightarrow>
   process_audio snk now m wid chunk =
     (put_stream m wid (fst (process_audio_data snk now s chunk)),
      snd (process_audio_data snk now s chunk))"
  by (simp add: process_audio_def split_beta)










section \<open>The order of the checks of \<^verbatim>\<open>create_stream\<close>\<close>

lemma create_stream_invalid:
  "wid = [] \<or> wid = ''None'' \<Longrightarrow>
   create_stream m wid md mo t1 t2 =
     Inl (ValueError ''Invalid webrtc_id: cannot be None or empty'')"
  by (auto simp: create_stream_def)

lemma create_stream_full:
  "wid \<noteq> [] \<Longrightarrow> wid \<noteq> ''None'' \<Longrightarrow> max_streams m \<le> length (streams m) \<Longrightarrow>
   create_stream m wid md mo t1 t2 = Inl (ValueError ''Maximum number of streams reached'')"
  by (simp add: create_stream_def)

lemma create_stream_duplicate:
  "wid \<noteq> [] \<Longrightarrow> wid \<noteq> ''None'' \<Longrightarrow> length (streams m) < max_streams m \<Longrightarrow>
   get_stream m wid \<noteq> None \<Longrightarrow>
   create_stream m wid md mo t1 t2 = Inl (ValueError (''Stream '' @ wid @ '' already exists''))"
  by (simp add: create_stream_def get_stream_def)

lemma create_stream_present_fails:
  "get_stream m wid \<noteq> None \<Longrightarrow> isl (create_stream m wid md mo t1 t2)"
  by (auto simp: create_stream_def get_stream_def)

text \<open>
  Claim C7, as the code has it. \<^verbatim>\<open>create_stream\<close> makes its checks in this order: an
  id that is empty or the text \<^verbatim>\<open>"None"\<close> raises the error of an invalid id; otherwise a
  registry that holds \<^verbatim>\<open>max_streams\<close> entries or more raises the error of the capacity;
  otherwise an id that is already there raises the error of the duplicate; otherwise the
  new stream is put last in the registry and returned, in the state of a created stream
  (not active, empty buffer, guard off). A call that raised has changed nothing: a failed
  call for an id that is already there leaves the size of the registry as it was.
\<close>
theorem create_stream_outcome:
  "(wid = [] \<or> wid = ''None'' \<longrightarrow>
      create_stream m wid md mo t1 t2 =
        Inl (ValueError ''Invalid webrtc_id: cannot be None or empty''))
   \<and> (wid \<noteq> [] \<and> wid \<noteq> ''None'' \<and> max_streams m \<le> length (streams m) \<longrightarrow>
        create_stream m wid md mo t1 t2 = Inl (ValueError ''Maximum number of streams reached''))
   \<and> (wid \<noteq> [] \<and> wid \<noteq> ''None'' \<and> length (streams m) < max_streams m
        \<and> get_stream m wid \<noteq> None \<longrightarrow>
        create_stream m wid md mo t1 t2 =
          Inl (ValueError (''Stream '' @ wid @ '' already exists'')))
   \<and> (wid \<noteq> [] \<and> wid \<noteq> ''None'' \<and> length (streams m) < max_streams m
        \<and> get_stream m wid = None \<longrightarrow>
        create_stream m wid md mo t1 t2 =
          Inr (m\<lparr>streams := streams m @ [(wid, FastRTCStream_init wid md mo t1 t2)]\<rparr>,
               FastRTCStream_init wid md mo t1 t2,
               [(INFO, ''Created FastRTC stream '' @ wid)])
        \<and> FastRTCStream_init wid md mo t1 t2 =
            \<lparr>webrtc_id = wid, modality = md, mode = mo, is_active = False, created_at = t1,
             last_activity = t2, audio_buffer = [], processing = False\<rparr>
        \<and> get_stream (step snk m (Create wid md mo t1 t2)) wid
            = Some (FastRTCStream_init wid md mo t1 t2)
        \<and> length (streams (step snk m (Create wid md mo t1 t2))) = length (streams m) + 1)
   \<and> (isl (create_stream m wid md mo t1 t2) \<longrightarrow> step snk m (Create wid md mo t1 t2) = m)
   \<and> (get_stream m wid \<noteq> None \<longrightarrow>
        isl (create_stream m wid md mo t1 t2)
        \<and> length (streams (step snk m (Create wid md mo t1 t2))) = length (streams m))"
proof (intro conjI impI)
  assume "wid = [] \<or> wid = ''None''"
  then show "create_stream m wid md mo t1 t2 =
        Inl (ValueError ''Invalid webrtc_id: cannot be None or empty'')"
    by (rule create_stream_invalid)
next
  assume "wid \<noteq> [] \<and> wid \<noteq> ''None'' \<and> max_streams m \<le> length (streams m)"
  then show "create_stream m wid md mo t1 t2 =
      Inl (ValueError ''Maximum number of streams reached'')"
    by (simp add: create_stream_full)
next
  assume "wid \<noteq> [] \<and> wid \<noteq> ''None'' \<and> length (streams m) < max_streams m
        \<and> get_stream m wid \<noteq> None"
  then show "create_stream m wid md mo t1 t2 =
          Inl (ValueError (''Stream '' @ wid @ '' already exists''))"
    by (simp add: create_stream_duplicate)
next
  assume h: "wid \<noteq> [] \<and> wid \<noteq> ''None'' \<and> length (streams m) < max_streams m
        \<and> get_stream m wid = None"
  then show c: "create_stream m wid md mo t1 t2 =
          Inr (m\<lparr>streams := streams m @ [(wid, FastRTCStream_init wid md mo t1 t2)]\<rparr>,
               FastRTCStream_init wid md mo t1 t2,
               [(INFO, ''Created FastRTC stream '' @ wid)])"
    by (simp add: create_stream_new)
  show "FastRTCStream_init wid md mo t1 t2 =
            \<lparr>webrtc_id = wid, modality = md, mode = mo, is_active = False, created_at = t1,
             last_activity = t2, audio_buffer = [], processing = False\<rparr>"
    by (simp add: FastRTCStream_init_def)
  show "get_stream (step snk m (Create wid md mo t1 t2)) wid
            = Some (FastRTCStream_init wid md mo t1 t2)"
    using h by (simp add: c get_stream_def map_add_def)
  show "length (streams (step snk m (Create wid md mo t1 t2))) = length (streams m) + 1"
    by (simp add: c)
next
  assume "isl (create_stream m wid md mo t1 t2)"
  then show "step snk m (Create wid md mo t1 t2) = m"
    by (auto simp: isl_def)
next
  assume p: "get_stream m wid \<noteq> None"
  then show f: "isl (create_stream m wid md mo t1 t2)"
    by (rule create_stream_present_fails)
  then show "length (streams (step snk m (Create wid md mo t1 t2))) = length (streams m)"
    by (auto simp: isl_def)
qed

text \<open>The full manager of the sample values.\<close>

lemma full_manager_props:
  "length (streams full_manager) = 100" "max_streams full_manager = 100"
  "get_stream full_manager ''7'' \<noteq> None"
proof -
  show "length (streams full_manager) = 100" "max_streams full_manager = 100"
    by (simp_all add: full_manager_def)
  have "(str_of_nat 7, FastRTCStream_init (str_of_nat 7) ''audio'' ''send'' noon noon)
      \<in> set (streams full_manager)"
    unfolding full_manager_def by (simp only: FastRTCManager.simps set_map) simp
  then have "fst (str_of_nat 7, FastRTCStream_init (str_of_nat 7) ''audio'' ''send'' noon noon)
      \<in> fst ` set (streams full_manager)"
    by (rule imageI)
  then have "''7'' \<in> fst ` set (streams full_manager)"
    by (simp add: str_of_nat.simps)
  then show "get_stream full_manager ''7'' \<noteq> None"
    by (simp add: get_stream_def map_of_eq_None_iff)
qed

theorem create_stream_outcome_witness:
  "create_stream FastRTCManager_init [] ''audio'' ''send'' noon noon
     = Inl (ValueError ''Invalid webrtc_id: cannot be None or empty'')
   \<and> create_stream full_manager ''new'' ''audio'' ''send'' noon noon
     = Inl (ValueError ''Maximum number of streams reached'')
   \<and> create_stream idle_manager ''a'' ''audio'' ''send'' noon noon
     = Inl (ValueError ''Stream a already exists'')
   \<and> length (streams (step no_sink idle_manager (Create ''a'' ''audio'' ''send'' noon noon)))
     = length (streams idle_manager)
   \<and> create_stream idle_manager ''b'' ''video'' ''receive'' noon (at_minute 12 1)
     = Inr (idle_manager\<lparr>streams := streams idle_manager
              @ [(''b'', FastRTCStream_init ''b'' ''video'' ''receive'' noon (at_minute 12 1))]\<rparr>,
            FastRTCStream_init ''b'' ''video'' ''receive'' noon (at_minute 12 1),
            [(INFO, ''Created FastRTC stream b'')])"
proof -
  have i: "get_stream idle_manager ''a'' \<noteq> None" "get_stream idle_manager ''b'' = None"
    "length (streams idle_manager) < max_streams idle_manager"
    by (simp_all add: get_stream_def idle_manager_def)
  from create_stream_outcome
    [where wid = "[]" and m = FastRTCManager_init and md = "''audio''" and mo = "''send''"
       and ?t1.0 = noon and ?t2.0 = noon]
  have 1: "create_stream FastRTCManager_init [] ''audio'' ''send'' noon noon
     = Inl (ValueError ''Invalid webrtc_id: cannot be None or empty'')"
    by simp
  from full_manager_props(1,2) create_stream_outcome
    [where wid = "''new''" and m = full_manager and md = "''audio''" and mo = "''send''"
       and ?t1.0 = noon and ?t2.0 = noon]
  have 2: "create_stream full_manager ''new'' ''audio'' ''send'' noon noon
     = Inl (ValueError ''Maximum number of streams reached'')"
    by simp
  note dup = create_stream_outcome
    [where wid = "''a''" and m = idle_manager and md = "''audio''" and mo = "''send''"
       and ?t1.0 = noon and ?t2.0 = noon and snk = no_sink]
  from i dup
  have 3: "create_stream idle_manager ''a'' ''audio'' ''send'' noon noon
     = Inl (ValueError ''Stream a already exists'')"
    by simp
  from i dup
  have 4: "length (streams (step no_sink idle_manager (Create ''a'' ''audio'' ''send'' noon noon)))
     = length (streams idle_manager)"
    by blast
  from i create_stream_outcome
    [where wid = "''b''" and m = idle_manager and md = "''video''" and mo = "''receive''"
       and ?t1.0 = noon and ?t2.0 = "at_minute 12 1"]
  have 5: "create_stream idle_manager ''b'' ''video'' ''receive'' noon (at_minute 12 1)
     = Inr (idle_manager\<lparr>streams := streams idle_manager
              @ [(''b'', FastRTCStream_init ''b'' ''video'' ''receive'' noon (at_minute 12 1))]\<rparr>,
            FastRTCStream_init ''b'' ''video'' ''receive'' noon (at_minute 12 1),
            [(INFO, ''Created FastRTC stream b'')])"
    by simp
  from 1 2 3 4 5 show ?thesis by blast
qed

text \<open>
  Against the claim as the spec words it (an id that is already there fails as a
  duplicate): in the full registry the id \<^verbatim>\<open>"7"\<close> is there, and the call fails with
  the error of the capacity, which is checked first.
\<close>

theorem full_registry_reports_capacity_for_duplicate:
  "get_stream full_manager ''7'' \<noteq> None
   \<and> create_stream full_manager ''7'' ''audio'' ''send'' noon noon
      = Inl (ValueError ''Maximum number of streams reached'')
   \<and> create_stream full_manager ''7'' ''audio'' ''send'' noon noon
      \<noteq> Inl (ValueError ''Stream 7 already exists'')"
  using full_manager_props by (simp add: create_stream_full)

section \<open>The registry stays a registry\<close>

lemma list_all_update:
  "list_all P al \<Longrightarrow> P (k, v) \<Longrightarrow> list_all P (AList.update k v al)"
  by (induction al) auto

lemma list_all_delete:
  "list_all P al \<Longrightarrow> list_all P (AList.delete k al)"
  by (induction al) auto

lemma length_update_present:
  "map_of al k = Some v' \<Longrightarrow> length (AList.update k v al) = length al"
  by (induction al) (auto split: if_splits)

lemma registry_inv_init: "registry_inv FastRTCManager_init"
  by (simp add: registry_inv_def FastRTCManager_init_def)

lemma registry_inv_put_stream:
  assumes "registry_inv m" "get_stream m wid = Some s" "webrtc_id s' = wid"
  shows "registry_inv (put_stream m wid s')"
  using assms
  by (simp add: registry_inv_def put_stream_def get_stream_def distinct_update
      list_all_update length_update_present)

lemma registry_inv_create_stream:
  assumes "registry_inv m" "create_stream m wid md mo t1 t2 = Inr (m', s, lg)"
  shows "registry_inv m'"
proof -
  from create_stream_InrD [OF assms(2)]
  have ok: "wid \<noteq> []" "wid \<noteq> ''None''" "length (streams m) < max_streams m"
    "get_stream m wid = None" by simp_all
  from assms(2) create_stream_new [OF ok, of md mo t1 t2]
  have m': "m' = m\<lparr>streams := streams m @ [(wid, FastRTCStream_init wid md mo t1 t2)]\<rparr>"
    by auto
  from ok(4) have "wid \<notin> fst ` set (streams m)"
    by (simp add: get_stream_def map_of_eq_None_iff)
  with assms(1) ok(3) show ?thesis
    by (simp add: m' registry_inv_def FastRTCStream_init_def)
qed

lemma remove_stream_streams:
  "\<exists>lg. remove_stream m wid = Inr (m\<lparr>streams := AList.delete wid (streams m)\<rparr>, lg)"
proof (cases "map_of (streams m) wid")
  case None
  then have "wid \<notin> fst ` set (streams m)" by (simp add: map_of_eq_None_iff)
  then show ?thesis using None by (simp add: remove_stream_def)
next
  case (Some s)
  then show ?thesis
    by (simp add: remove_stream_def put_stream_def stop_streaming_def delete_update_same)
qed

lemma registry_inv_delete:
  "registry_inv m \<Longrightarrow> registry_inv (m\<lparr>streams := AList.delete wid (streams m)\<rparr>)"
  using length_delete_le [of wid "streams m"]
  by (simp add: registry_inv_def distinct_delete list_all_delete)

lemma registry_inv_remove_stream:
  assumes "registry_inv m" "remove_stream m wid = Inr (m', lg)"
  shows "registry_inv m'"
  using assms remove_stream_streams [of m wid] by (auto simp: registry_inv_delete)

lemma registry_inv_remove_streams:
  "registry_inv m \<Longrightarrow> remove_streams m wids = Inr (m', lg) \<Longrightarrow> registry_inv m'"
proof (induction wids arbitrary: m m' lg)
  case Nil
  then show ?case by simp
next
  case (Cons wid wids)
  from remove_stream_streams [of m wid] obtain lg1
    where r: "remove_stream m wid = Inr (m\<lparr>streams := AList.delete wid (streams m)\<rparr>, lg1)" ..
  from Cons.prems(2) r obtain lg2
    where "remove_streams (m\<lparr>streams := AList.delete wid (streams m)\<rparr>) wids = Inr (m', lg2)"
    by (auto split: sum.splits)
  with Cons.IH registry_inv_delete [OF Cons.prems(1)] show ?case by blast
qed

lemma registry_inv_cleanup:
  assumes "registry_inv m" "cleanup_inactive_streams now m mins = Inr (m', lg)"
  shows "registry_inv m'"
  using assms
  by (auto simp: cleanup_inactive_streams_def Let_def split: sum.splits
      dest: registry_inv_remove_streams)

lemma process_audio_data_webrtc_id:
  "webrtc_id (fst (process_audio_data snk now s chunk)) = webrtc_id s"
  by (simp add: process_audio_data_def Let_def process_buffer_frame)

lemma registry_inv_stream_id:
  "registry_inv m \<Longrightarrow> get_stream m wid = Some s \<Longrightarrow> webrtc_id s = wid"
  by (auto simp: registry_inv_def get_stream_def list_all_iff dest: map_of_SomeD)

lemma registry_inv_process_audio:
  assumes "registry_inv m"
  shows "registry_inv (fst (process_audio snk now m wid chunk))"
proof (cases "get_stream m wid")
  case None
  then show ?thesis using assms by (simp add: process_audio_unknown)
next
  case (Some s)
  then show ?thesis
    using assms
    by (simp add: process_audio_known registry_inv_put_stream process_audio_data_webrtc_id
        registry_inv_stream_id)
qed

lemma get_stream_key_SomeD:
  "get_stream_key m wid = Inr (Some s) \<Longrightarrow> get_stream m (py_str wid) = Some s"
  by (cases wid) (auto simp: get_stream_key_def py_str_def)

lemma registry_inv_start_stream_of:
  assumes "registry_inv m" "start_stream_of m wid now = Inr (m', lg)"
  shows "registry_inv m'"
  using assms
  by (auto simp: start_stream_of_def start_streaming_def registry_inv_put_stream
      registry_inv_stream_id split: if_splits sum.splits option.splits
      dest!: get_stream_key_SomeD)

lemma registry_inv_stop_stream_of:
  assumes "registry_inv m" "stop_stream_of m wid = Inr (m', lg)"
  shows "registry_inv m'"
  using assms
  by (auto simp: stop_stream_of_def stop_streaming_def registry_inv_put_stream
      registry_inv_stream_id split: if_splits sum.splits option.splits
      dest!: get_stream_key_SomeD)

lemma registry_inv_answer:
  assumes "registry_inv m" "create_webrtc_answer m offer uuid t1 t2 t3 = Inr (m', ans, lg)"
  shows "registry_inv m'"
  using assms unfolding create_webrtc_answer_def Let_def
  by (auto split: sum.splits dest: registry_inv_create_stream)

lemma registry_inv_delete_endpoint:
  assumes "registry_inv m" "remove_fastrtc_stream m wid = Inr (m', resp, lg)"
  shows "registry_inv m'"
  using assms
  by (auto simp: remove_fastrtc_stream_def split: sum.splits dest: registry_inv_remove_stream)

lemma registry_inv_step: "registry_inv m \<Longrightarrow> registry_inv (step snk m c)"
proof (cases c)
  case (ProcessAudio now wid chunk)
  assume "registry_inv m"
  then show ?thesis by (simp add: ProcessAudio registry_inv_process_audio)
qed (auto split: sum.splits
      dest: registry_inv_create_stream registry_inv_answer registry_inv_remove_stream
        registry_inv_delete_endpoint registry_inv_cleanup registry_inv_start_stream_of
        registry_inv_stop_stream_of)

lemma registry_inv_run: "registry_inv m \<Longrightarrow> registry_inv (run snk m cs)"
  by (induction cs arbitrary: m) (simp_all add: registry_inv_step)


lemma max_streams_put_stream [simp]: "max_streams (put_stream m wid s) = max_streams m"
  by (simp add: put_stream_def)

lemma max_streams_remove_streams:
  "remove_streams m wids = Inr (m', lg) \<Longrightarrow> max_streams m' = max_streams m"
proof (induction wids arbitrary: m m' lg)
  case Nil
  then show ?case by simp
next
  case (Cons wid wids)
  from remove_stream_streams [of m wid] obtain lg1
    where r: "remove_stream m wid = Inr (m\<lparr>streams := AList.delete wid (streams m)\<rparr>, lg1)" ..
  from Cons.prems r obtain lg2
    where "remove_streams (m\<lparr>streams := AList.delete wid (streams m)\<rparr>) wids = Inr (m', lg2)"
    by (auto split: sum.splits)
  from Cons.IH [OF this] show ?case by simp
qed

lemma max_streams_create_stream:
  "create_stream m wid md mo t1 t2 = Inr (m', s, lg) \<Longrightarrow> max_streams m' = max_streams m"
  by (auto simp: create_stream_def Let_def split: if_splits)

lemma create_webrtc_answer_InrD:
  "create_webrtc_answer m offer uuid t1 t2 t3 = Inr (m', ans, lg) \<Longrightarrow>
   \<exists>s lg'. create_stream m uuid (dict_get offer ''modality'' ''audio'')
              (dict_get offer ''mode'' ''send'') t1 t2 = Inr (m', s, lg')"
  unfolding create_webrtc_answer_def Let_def by (auto split: sum.splits)

lemma max_streams_step: "max_streams (step snk m c) = max_streams m"
proof (cases c)
  case (Create wid md mo t1 t2)
  then show ?thesis
    by (auto split: sum.splits dest: max_streams_create_stream)
next
  case (Answer offer uuid t1 t2 t3)
  then show ?thesis
    by (auto split: sum.splits dest!: create_webrtc_answer_InrD dest: max_streams_create_stream)
next
  case (Remove wid)
  then show ?thesis using remove_stream_streams [of m wid] by auto
next
  case (Delete wid)
  then show ?thesis
    using remove_stream_streams [of m wid] by (auto simp: remove_fastrtc_stream_def)
next
  case (ProcessAudio now wid chunk)
  then show ?thesis
    by (cases "get_stream m wid") (simp_all add: process_audio_unknown process_audio_known)
next
  case (Cleanup now mins)
  then show ?thesis
    by (auto simp: cleanup_inactive_streams_def Let_def split: sum.splits
        dest: max_streams_remove_streams)
next
  case (Start wid now)
  then show ?thesis
    by (auto simp: start_stream_of_def split_beta split: sum.splits if_splits option.splits)
next
  case (Stop wid)
  then show ?thesis
    by (auto simp: stop_stream_of_def split_beta split: sum.splits if_splits option.splits)
qed

lemma max_streams_run: "max_streams (run snk m cs) = max_streams m"
  by (induction cs arbitrary: m) (simp_all add: max_streams_step)

text \<open>A run of creations with fresh, distinct, valid ids that fit goes through.\<close>

lemma create_streams_ok:
  "distinct (map fst reqs) \<Longrightarrow>
   list_all (\<lambda>r. fst r \<noteq> [] \<and> fst r \<noteq> ''None'') reqs \<Longrightarrow>
   set (map fst reqs) \<inter> fst ` set (streams m) = {} \<Longrightarrow>
   length (streams m) + length reqs \<le> max_streams m \<Longrightarrow>
   \<exists>m'. create_streams m reqs = Inr m'
      \<and> map fst (streams m') = map fst (streams m) @ map fst reqs
      \<and> max_streams m' = max_streams m"
proof (induction reqs arbitrary: m)
  case Nil
  then show ?case by simp
next
  case (Cons r reqs)
  obtain wid md mo t1 t2 where r: "r = (wid, md, mo, t1, t2)" by (cases r)
  let ?m1 = "m\<lparr>streams := streams m @ [(wid, FastRTCStream_init wid md mo t1 t2)]\<rparr>"
  from Cons.prems have "wid \<notin> fst ` set (streams m)" by (auto simp: r)
  then have absent: "get_stream m wid = None"
    by (simp add: get_stream_def map_of_eq_None_iff)
  from Cons.prems have c: "create_stream m wid md mo t1 t2 =
      Inr (?m1, FastRTCStream_init wid md mo t1 t2, [(INFO, ''Created FastRTC stream '' @ wid)])"
    by (intro create_stream_new absent) (simp_all add: r)
  have "\<exists>m'. create_streams ?m1 reqs = Inr m'
      \<and> map fst (streams m') = map fst (streams ?m1) @ map fst reqs
      \<and> max_streams m' = max_streams ?m1"
    using Cons.prems by (intro Cons.IH) (auto simp: r)
  then show ?case by (simp add: r c)
qed

text \<open>
  Claim C8. Whatever calls are made on the manager of the module, in whatever order, with
  whatever arguments, the registry never holds an id twice, files every stream under its
  own id, and never holds more than the hundred streams of \<^verbatim>\<open>max_streams\<close>; every single
  call keeps this, from any manager that has it. Into an empty manager, any number of
  streams with distinct valid ids can be created up to \<^verbatim>\<open>max_streams\<close>, each call
  succeeding; once \<^verbatim>\<open>max_streams\<close> are there, one more creation fails with the error of
  the capacity.
\<close>
theorem registry_invariant:
  "registry_inv (run snk FastRTCManager_init calls)
   \<and> distinct (map fst (streams (run snk FastRTCManager_init calls)))
   \<and> length (streams (run snk FastRTCManager_init calls)) \<le> 100
   \<and> (registry_inv m \<longrightarrow> registry_inv (step snk m c))
   \<and> (streams m0 = [] \<and> distinct (map fst reqs)
        \<and> list_all (\<lambda>r. fst r \<noteq> [] \<and> fst r \<noteq> ''None'') reqs
        \<and> length reqs \<le> max_streams m0 \<longrightarrow>
        (\<exists>m'. create_streams m0 reqs = Inr m'
           \<and> map fst (streams m') = map fst reqs
           \<and> max_streams m' = max_streams m0
           \<and> (length reqs = max_streams m0 \<and> wid \<noteq> [] \<and> wid \<noteq> ''None'' \<longrightarrow>
                create_stream m' wid md mo t1 t2 =
                  Inl (ValueError ''Maximum number of streams reached''))))"
proof (intro conjI impI)
  show inv: "registry_inv (run snk FastRTCManager_init calls)"
    by (simp add: registry_inv_run registry_inv_init)
  then show "distinct (map fst (streams (run snk FastRTCManager_init calls)))"
    by (simp add: registry_inv_def)
  have "max_streams (run snk FastRTCManager_init calls) = 100"
    by (simp add: max_streams_run FastRTCManager_init_def)
  with inv show "length (streams (run snk FastRTCManager_init calls)) \<le> 100"
    by (simp add: registry_inv_def)
next
  assume "registry_inv m"
  then show "registry_inv (step snk m c)" by (rule registry_inv_step)
next
  assume h: "streams m0 = [] \<and> distinct (map fst reqs)
        \<and> list_all (\<lambda>r. fst r \<noteq> [] \<and> fst r \<noteq> ''None'') reqs
        \<and> length reqs \<le> max_streams m0"
  then obtain m' where m': "create_streams m0 reqs = Inr m'"
      "map fst (streams m') = map fst (streams m0) @ map fst reqs"
      "max_streams m' = max_streams m0"
    using create_streams_ok [of reqs m0] by auto
  from h have e: "streams m0 = []" and fit: "length reqs \<le> max_streams m0" by simp_all
  from m'(2) e have keys: "map fst (streams m') = map fst reqs" by simp
  then have "length (map fst (streams m')) = length (map fst reqs)" by (rule arg_cong)
  then have len: "length (streams m') = length reqs" by simp
  have full: "create_stream m' wid md mo t1 t2 =
      Inl (ValueError ''Maximum number of streams reached'')"
    if "length reqs = max_streams m0 \<and> wid \<noteq> [] \<and> wid \<noteq> ''None''"
    using that len m'(3) by (intro create_stream_full) simp_all
  show "\<exists>m'. create_streams m0 reqs = Inr m'
           \<and> map fst (streams m') = map fst reqs
           \<and> max_streams m' = max_streams m0
           \<and> (length reqs = max_streams m0 \<and> wid \<noteq> [] \<and> wid \<noteq> ''None'' \<longrightarrow>
                create_stream m' wid md mo t1 t2 =
                  Inl (ValueError ''Maximum number of streams reached''))"
    using m'(1) keys m'(3) full by blast
qed

theorem registry_invariant_witness:
  "registry_inv
     (run no_sink FastRTCManager_init
        [Create ''a'' ''audio'' ''send'' noon noon, Create ''a'' ''audio'' ''send'' noon noon,
         Start (PStr ''a'') (at_minute 12 1), ProcessAudio (at_minute 12 2) ''a'' [1, 2],
         Cleanup (at_minute 13 45) 30, Remove ''a''])
   \<and> (\<exists>m'. create_streams small_manager
              [(''a'', ''audio'', ''send'', noon, noon), (''b'', ''audio'', ''send'', noon, noon)]
            = Inr m'
         \<and> map fst (streams m') = [''a'', ''b'']
         \<and> create_stream m' ''c'' ''audio'' ''send'' noon noon =
             Inl (ValueError ''Maximum number of streams reached''))"
proof -
  let ?reqs = "[(''a'', ''audio'', ''send'', noon, noon), (''b'', ''audio'', ''send'', noon, noon)]"
  note inst = registry_invariant
    [where snk = no_sink and m = FastRTCManager_init and c = "Remove ''a''"
       and ?m0.0 = small_manager and wid = "''c''" and md = "''audio''" and mo = "''send''"
       and ?t1.0 = noon and ?t2.0 = noon and reqs = ?reqs
       and calls = "[Create ''a'' ''audio'' ''send'' noon noon,
         Create ''a'' ''audio'' ''send'' noon noon,
         Start (PStr ''a'') (at_minute 12 1), ProcessAudio (at_minute 12 2) ''a'' [1, 2],
         Cleanup (at_minute 13 45) 30, Remove ''a'']"]
  have hyp: "streams small_manager = [] \<and> distinct (map fst ?reqs)
        \<and> list_all (\<lambda>r. fst r \<noteq> [] \<and> fst r \<noteq> ''None'') ?reqs
        \<and> length ?reqs \<le> max_streams small_manager"
    "length ?reqs = max_streams small_manager \<and> ''c'' \<noteq> [] \<and> ''c'' \<noteq> ''None''"
    "map fst ?reqs = [''a'', ''b'']"
    by (simp_all add: small_manager_def)
  from inst hyp(1,2) obtain m' where "create_streams small_manager ?reqs = Inr m'"
    "map fst (streams m') = map fst ?reqs"
    "create_stream m' ''c'' ''audio'' ''send'' noon noon =
       Inl (ValueError ''Maximum number of streams reached'')"
    by blast
  with hyp(3) have 2: "\<exists>m'. create_streams small_manager ?reqs = Inr m'
         \<and> map fst (streams m') = [''a'', ''b'']
         \<and> create_stream m' ''c'' ''audio'' ''send'' noon noon =
             Inl (ValueError ''Maximum number of streams reached'')"
    by metis
  from inst 2 show ?thesis by blast
qed

section \<open>Removal\<close>

lemma remove_stream_absent:
  "get_stream fm wid = None \<Longrightarrow> remove_stream fm wid = Inr (fm, [])"
  by (simp add: remove_stream_def get_stream_def)

lemma remove_stream_present:
  "get_stream fm wid = Some s \<Longrightarrow>
   remove_stream fm wid =
     Inr (fm\<lparr>streams := AList.delete wid (streams fm)\<rparr>,
          [(INFO, ''Stopped FastRTC stream for '' @ webrtc_id s),
           (INFO, ''Removed FastRTC stream '' @ wid)])"
  by (simp add: remove_stream_def get_stream_def put_stream_def stop_streaming_def
      delete_update_same)

lemma get_stream_deleted:
  "get_stream (fm\<lparr>streams := AList.delete wid (streams fm)\<rparr>) wid = None"
  by (simp add: get_stream_def delete_conv')

lemma remove_fastrtc_stream_absent:
  "get_stream fm wid = None \<Longrightarrow>
   remove_fastrtc_stream fm wid =
     Inr (fm, PDict [(''status'', PStr ''success''),
                     (''message'', PStr (''Stream '' @ wid @ '' removed''))], [])"
  by (simp add: remove_fastrtc_stream_def remove_stream_absent)

text \<open>
  Claim C3, against the code. The claim wants the removal of an id that is not in the
  registry, and so also the second removal of the same id, to fail with a not-found error.
  \<^verbatim>\<open>remove_stream\<close> does nothing for such an id and raises nothing, so the \<^verbatim>\<open>except\<close> of
  the endpoint, which answers 404 ``not found'', is never entered: the endpoint answers
  \<^verbatim>\<open>success\<close> for every id. For an id that is in the registry the code does what the
  claim says: the stream is stopped, then its entry is deleted, and a lookup finds nothing.
\<close>
theorem remove_outcome:
  "(get_stream fm wid = None \<longrightarrow>
      remove_stream fm wid = Inr (fm, [])
      \<and> remove_fastrtc_stream fm wid =
          Inr (fm, PDict [(''status'', PStr ''success''),
                          (''message'', PStr (''Stream '' @ wid @ '' removed''))], []))
   \<and> (get_stream fm wid = Some s \<longrightarrow>
        remove_stream fm wid =
          Inr (fm\<lparr>streams := AList.delete wid (streams fm)\<rparr>,
               [(INFO, ''Stopped FastRTC stream for '' @ webrtc_id s),
                (INFO, ''Removed FastRTC stream '' @ wid)])
        \<and> get_stream (fm\<lparr>streams := AList.delete wid (streams fm)\<rparr>) wid = None
        \<and> remove_stream (fm\<lparr>streams := AList.delete wid (streams fm)\<rparr>) wid =
            Inr (fm\<lparr>streams := AList.delete wid (streams fm)\<rparr>, [])
        \<and> remove_fastrtc_stream (fm\<lparr>streams := AList.delete wid (streams fm)\<rparr>) wid =
            Inr (fm\<lparr>streams := AList.delete wid (streams fm)\<rparr>,
                 PDict [(''status'', PStr ''success''),
                        (''message'', PStr (''Stream '' @ wid @ '' removed''))], []))
   \<and> \<not> isl (remove_stream fm wid)
   \<and> \<not> isl (remove_fastrtc_stream fm wid)"
proof (intro conjI impI)
  assume "get_stream fm wid = None"
  then show "remove_stream fm wid = Inr (fm, [])"
    and "remove_fastrtc_stream fm wid =
          Inr (fm, PDict [(''status'', PStr ''success''),
                          (''message'', PStr (''Stream '' @ wid @ '' removed''))], [])"
    by (simp_all add: remove_stream_absent remove_fastrtc_stream_absent)
next
  let ?fm' = "fm\<lparr>streams := AList.delete wid (streams fm)\<rparr>"
  assume "get_stream fm wid = Some s"
  then show "remove_stream fm wid =
          Inr (?fm', [(INFO, ''Stopped FastRTC stream for '' @ webrtc_id s),
                (INFO, ''Removed FastRTC stream '' @ wid)])"
    by (rule remove_stream_present)
  show gone: "get_stream ?fm' wid = None" by (rule get_stream_deleted)
  from gone show "remove_stream ?fm' wid = Inr (?fm', [])"
    by (rule remove_stream_absent)
  from gone show "remove_fastrtc_stream ?fm' wid =
            Inr (?fm', PDict [(''status'', PStr ''success''),
                        (''message'', PStr (''Stream '' @ wid @ '' removed''))], [])"
    by (rule remove_fastrtc_stream_absent)
next
  show r: "\<not> isl (remove_stream fm wid)"
    using remove_stream_streams [of fm wid] by auto
  then show "\<not> isl (remove_fastrtc_stream fm wid)"
    by (auto simp: remove_fastrtc_stream_def isl_def split: sum.splits)
qed

theorem remove_outcome_witness:
  "remove_fastrtc_stream FastRTCManager_init ''ghost'' =
     Inr (FastRTCManager_init,
          PDict [(''status'', PStr ''success''), (''message'', PStr ''Stream ghost removed'')], [])
   \<and> remove_stream live_manager ''a'' =
       Inr (live_manager\<lparr>streams := []\<rparr>,
            [(INFO, ''Stopped FastRTC stream for a''), (INFO, ''Removed FastRTC stream a'')])
   \<and> remove_fastrtc_stream (live_manager\<lparr>streams := []\<rparr>) ''a'' =
       Inr (live_manager\<lparr>streams := []\<rparr>,
            PDict [(''status'', PStr ''success''), (''message'', PStr ''Stream a removed'')], [])"
proof -
  have g: "get_stream FastRTCManager_init ''ghost'' = None"
    "get_stream live_manager ''a'' = Some live_stream"
    "AList.delete ''a'' (streams live_manager) = []"
    "webrtc_id live_stream = ''a''"
    by (simp_all add: get_stream_def FastRTCManager_init_def live_manager_def live_stream_def
        FastRTCStream_init_def)
  from g(1) remove_outcome [where fm = FastRTCManager_init and wid = "''ghost''"]
  have 1: "remove_fastrtc_stream FastRTCManager_init ''ghost'' =
     Inr (FastRTCManager_init,
          PDict [(''status'', PStr ''success''), (''message'', PStr ''Stream ghost removed'')], [])"
    by simp
  note live = remove_outcome [where fm = live_manager and wid = "''a''" and s = live_stream]
  from live g(2) have "remove_stream live_manager ''a'' =
       Inr (live_manager\<lparr>streams := AList.delete ''a'' (streams live_manager)\<rparr>,
            [(INFO, ''Stopped FastRTC stream for '' @ webrtc_id live_stream),
             (INFO, ''Removed FastRTC stream '' @ ''a'')])"
    by blast
  then have 2: "remove_stream live_manager ''a'' =
       Inr (live_manager\<lparr>streams := []\<rparr>,
            [(INFO, ''Stopped FastRTC stream for a''), (INFO, ''Removed FastRTC stream a'')])"
    by (simp add: g)
  from live g(2)
  have "remove_fastrtc_stream (live_manager\<lparr>streams := AList.delete ''a'' (streams live_manager)\<rparr>) ''a'' =
       Inr (live_manager\<lparr>streams := AList.delete ''a'' (streams live_manager)\<rparr>,
            PDict [(''status'', PStr ''success''),
                   (''message'', PStr (''Stream '' @ ''a'' @ '' removed''))], [])"
    by blast
  then have 3: "remove_fastrtc_stream (live_manager\<lparr>streams := []\<rparr>) ''a'' =
       Inr (live_manager\<lparr>streams := []\<rparr>,
            PDict [(''status'', PStr ''success''), (''message'', PStr ''Stream a removed'')], [])"
    by (simp add: g)
  from 1 2 3 show ?thesis by blast
qed

section \<open>The sweep\<close>

lemma remove_streams_streams:
  "\<exists>lg. remove_streams m wids =
     Inr (m\<lparr>streams := filter (\<lambda>e. fst e \<notin> set wids) (streams m)\<rparr>, lg)"
proof (induction wids arbitrary: m)
  case Nil
  then show ?case by simp
next
  case (Cons wid wids)
  let ?m1 = "m\<lparr>streams := AList.delete wid (streams m)\<rparr>"
  from remove_stream_streams [of m wid] obtain lg1
    where r: "remove_stream m wid = Inr (?m1, lg1)" ..
  from Cons.IH [of ?m1] obtain lg2
    where s: "remove_streams ?m1 wids =
      Inr (?m1\<lparr>streams := filter (\<lambda>e. fst e \<notin> set wids) (streams ?m1)\<rparr>, lg2)" ..
  have "filter (\<lambda>e. fst e \<notin> set wids) (AList.delete wid (streams m))
      = filter (\<lambda>e. fst e \<notin> set (wid # wids)) (streams m)"
    by (auto simp: AList.delete_eq intro: filter_cong)
  then show ?case by (simp add: r s)
qed

lemma filter_collected_keys:
  assumes "distinct (map fst al)"
  shows "filter (\<lambda>e. fst e \<notin> set (map fst (filter P al))) al = filter (\<lambda>e. \<not> P e) al"
proof (rule filter_cong [OF refl])
  fix e assume e: "e \<in> set al"
  show "(fst e \<notin> set (map fst (filter P al))) = (\<not> P e)"
  proof
    assume "fst e \<notin> set (map fst (filter P al))"
    then show "\<not> P e" using e by force
  next
    assume n: "\<not> P e"
    show "fst e \<notin> set (map fst (filter P al))"
    proof
      assume "fst e \<in> set (map fst (filter P al))"
      then obtain e' where e': "e' \<in> set al" "P e'" "fst e' = fst e" by auto
      from assms e e' have "e' = e"
        by (metis eq_key_imp_eq_value prod.collapse)
      with n e'(2) show False by simp
    qed
  qed
qed

lemma cleanup_early_minute:
  "int (minute now) < mins \<Longrightarrow> mins \<le> 2147483648 \<Longrightarrow>
   cleanup_inactive_streams now m mins = Inl (ValueError ''minute must be in 0..59'')"
  by (simp add: cleanup_inactive_streams_def replace_minute_def)

lemma cleanup_unfold:
  assumes "replace_minute now (int (minute now) - mins) = Inr cutoff"
    and "remove_streams m
           (map fst (filter (\<lambda>(wid, s). dt_less (last_activity s) cutoff) (streams m)))
         = Inr (m', lg)"
  shows "\<exists>lg'. cleanup_inactive_streams now m mins = Inr (m', lg')"
  using assms by (simp add: cleanup_inactive_streams_def Let_def)

lemma cleanup_late_minute:
  assumes "0 \<le> mins" "mins \<le> int (minute now)" "minute now \<le> 59"
    and "distinct (map fst (streams m))"
  shows "\<exists>lg. cleanup_inactive_streams now m mins =
     Inr (m\<lparr>streams :=
              filter (\<lambda>(wid, s). \<not> dt_less (last_activity s)
                                       (now\<lparr>minute := minute now - nat mins\<rparr>))
                (streams m)\<rparr>, lg)"
proof -
  let ?cut = "now\<lparr>minute := minute now - nat mins\<rparr>"
  let ?P = "\<lambda>(wid, s). dt_less (last_activity s) ?cut"
  from assms(1-3) have c: "replace_minute now (int (minute now) - mins) = Inr ?cut"
    by (simp add: replace_minute_def nat_diff_distrib')
  from remove_streams_streams [of m "map fst (filter ?P (streams m))"] obtain lg
    where r: "remove_streams m (map fst (filter ?P (streams m))) =
      Inr (m\<lparr>streams := filter (\<lambda>e. fst e \<notin> set (map fst (filter ?P (streams m))))
                            (streams m)\<rparr>, lg)" ..
  have f: "filter (\<lambda>e. fst e \<notin> set (map fst (filter ?P (streams m)))) (streams m)
      = filter (\<lambda>(wid, s). \<not> dt_less (last_activity s) ?cut) (streams m)"
    using filter_collected_keys [OF assms(4), of ?P] by (simp add: split_def)
  from cleanup_unfold [OF c r] show ?thesis unfolding f .
qed


text \<open>
  Claim C4, against the code. The claim wants the sweep with the threshold of 30 minutes to
  remove just the streams last active before \<open>now - 30 min\<close> and to complete without
  failure. \<^verbatim>\<open>cleanup_inactive_streams\<close> computes the cutoff with
  \<^verbatim>\<open>replace(minute=minute - 30)\<close>, which is the time 30 minutes ago only in the second
  half of an hour. In the first half of every hour the new minute is negative and
  \<^verbatim>\<open>replace\<close> raises: the sweep fails and removes nothing. In the second half (and for
  a registry whose keys are distinct, as they are) the sweep removes just the streams last
  active before the cutoff and keeps the others in their order.
\<close>
theorem cleanup_outcome:
  "(minute now < 30 \<longrightarrow>
      cleanup_inactive_streams now m 30 = Inl (ValueError ''minute must be in 0..59''))
   \<and> (30 \<le> minute now \<and> minute now \<le> 59 \<and> distinct (map fst (streams m)) \<longrightarrow>
        (\<exists>lg. cleanup_inactive_streams now m 30 =
           Inr (m\<lparr>streams :=
                    filter (\<lambda>(wid, s). \<not> dt_less (last_activity s)
                                             (now\<lparr>minute := minute now - 30\<rparr>))
                      (streams m)\<rparr>, lg)))"
proof (intro conjI impI)
  assume "minute now < 30"
  then show "cleanup_inactive_streams now m 30 = Inl (ValueError ''minute must be in 0..59'')"
    by (intro cleanup_early_minute) simp_all
next
  assume "30 \<le> minute now \<and> minute now \<le> 59 \<and> distinct (map fst (streams m))"
  then show "\<exists>lg. cleanup_inactive_streams now m 30 =
           Inr (m\<lparr>streams :=
                    filter (\<lambda>(wid, s). \<not> dt_less (last_activity s)
                                             (now\<lparr>minute := minute now - 30\<rparr>))
                      (streams m)\<rparr>, lg)"
    using cleanup_late_minute [of 30 now m] by simp
qed

theorem cleanup_outcome_witness:
  "cleanup_inactive_streams (at_minute 13 10) sweep_manager 30
     = Inl (ValueError ''minute must be in 0..59'')
   \<and> (\<exists>lg. cleanup_inactive_streams (at_minute 12 45) sweep_manager 30
        = Inr (sweep_manager
                 \<lparr>streams :=
                    [(''new'', FastRTCStream_init ''new'' ''audio'' ''send'' noon (at_minute 12 16))]\<rparr>,
               lg))"
proof -
  have 1: "cleanup_inactive_streams (at_minute 13 10) sweep_manager 30
     = Inl (ValueError ''minute must be in 0..59'')"
    using cleanup_outcome [where now = "at_minute 13 10" and m = sweep_manager]
    by (simp add: at_minute_def)
  have h: "30 \<le> minute (at_minute 12 45) \<and> minute (at_minute 12 45) \<le> 59
      \<and> distinct (map fst (streams sweep_manager))"
    by (simp add: at_minute_def sweep_manager_def)
  have f: "filter (\<lambda>(wid, s). \<not> dt_less (last_activity s)
                      ((at_minute 12 45)\<lparr>minute := minute (at_minute 12 45) - 30\<rparr>))
             (streams sweep_manager)
      = [(''new'', FastRTCStream_init ''new'' ''audio'' ''send'' noon (at_minute 12 16))]"
    by (simp add: sweep_manager_def at_minute_def noon_def dt_less_def dt_fields_def
        FastRTCStream_init_def)
  from cleanup_outcome [where now = "at_minute 12 45" and m = sweep_manager] h
  have "\<exists>lg. cleanup_inactive_streams (at_minute 12 45) sweep_manager 30 =
           Inr (sweep_manager\<lparr>streams :=
                    filter (\<lambda>(wid, s). \<not> dt_less (last_activity s)
                              ((at_minute 12 45)\<lparr>minute := minute (at_minute 12 45) - 30\<rparr>))
                      (streams sweep_manager)\<rparr>, lg)"
    by blast
  then have 2: "\<exists>lg. cleanup_inactive_streams (at_minute 12 45) sweep_manager 30
        = Inr (sweep_manager
                 \<lparr>streams :=
                    [(''new'', FastRTCStream_init ''new'' ''audio'' ''send'' noon (at_minute 12 16))]\<rparr>,
               lg)"
    unfolding f .
  from 1 2 show ?thesis by blast
qed

section \<open>The answer and the registry's errors\<close>

lemma create_webrtc_answer_Inl:
  "create_stream fm uuid (dict_get offer ''modality'' ''audio'')
     (dict_get offer ''mode'' ''send'') t1 t2 = Inl e \<Longrightarrow>
   create_webrtc_answer fm offer uuid t1 t2 t3 = Inl e"
  unfolding create_webrtc_answer_def Let_def by simp

lemma create_webrtc_answer_Inr:
  "create_stream fm uuid (dict_get offer ''modality'' ''audio'')
     (dict_get offer ''mode'' ''send'') t1 t2 = Inr (fm', s, lg) \<Longrightarrow>
   create_webrtc_answer fm offer uuid t1 t2 t3 =
     Inr (fm',
          PDict [(''status'', PStr ''success''),
                 (''sdp'', PStr (join [CHR 0x0A] (sdp_lines uuid))),
                 (''webrtc_id'', PStr uuid),
                 (''meta'', PDict [(''modality'', PStr (dict_get offer ''modality'' ''audio'')),
                                   (''mode'', PStr (dict_get offer ''mode'' ''send'')),
                                   (''created_at'', PStr (isoformat t3))])],
          lg @ [(INFO, ''Generated SDP answer: '' @ join [CHR 0x0A] (sdp_lines uuid))])"
  unfolding create_webrtc_answer_def Let_def by simp

text \<open>
  Claim C5, as the code has it. \<^verbatim>\<open>create_webrtc_answer\<close> calls \<^verbatim>\<open>create_stream\<close>
  outside any \<^verbatim>\<open>try\<close>: whatever the registry raises, the function raises, the same
  \<^verbatim>\<open>ValueError\<close> with the same text (the capacity reached, the id already there). It
  returns a result only when the stream was created: the success descriptor with the new
  id, the answer block and the modality, mode and time of creation.
\<close>
theorem create_webrtc_answer_outcome:
  "(create_stream fm uuid (dict_get offer ''modality'' ''audio'')
      (dict_get offer ''mode'' ''send'') t1 t2 = Inl e \<longrightarrow>
      create_webrtc_answer fm offer uuid t1 t2 t3 = Inl e)
   \<and> (uuid \<noteq> [] \<and> uuid \<noteq> ''None'' \<and> max_streams fm \<le> length (streams fm) \<longrightarrow>
        create_webrtc_answer fm offer uuid t1 t2 t3 =
          Inl (ValueError ''Maximum number of streams reached''))
   \<and> (uuid \<noteq> [] \<and> uuid \<noteq> ''None'' \<and> length (streams fm) < max_streams fm
        \<and> get_stream fm uuid \<noteq> None \<longrightarrow>
        create_webrtc_answer fm offer uuid t1 t2 t3 =
          Inl (ValueError (''Stream '' @ uuid @ '' already exists'')))
   \<and> (uuid \<noteq> [] \<and> uuid \<noteq> ''None'' \<and> length (streams fm) < max_streams fm
        \<and> get_stream fm uuid = None \<longrightarrow>
        create_webrtc_answer fm offer uuid t1 t2 t3 =
          Inr (fm\<lparr>streams := streams fm
                 @ [(uuid, FastRTCStream_init uuid (dict_get offer ''modality'' ''audio'')
                             (dict_get offer ''mode'' ''send'') t1 t2)]\<rparr>,
               PDict [(''status'', PStr ''success''),
                      (''sdp'', PStr (join [CHR 0x0A] (sdp_lines uuid))),
                      (''webrtc_id'', PStr uuid),
                      (''meta'',
                       PDict [(''modality'', PStr (dict_get offer ''modality'' ''audio'')),
                              (''mode'', PStr (dict_get offer ''mode'' ''send'')),
                              (''created_at'', PStr (isoformat t3))])],
               [(INFO, ''Created FastRTC stream '' @ uuid),
                (INFO, ''Generated SDP answer: '' @ join [CHR 0x0A] (sdp_lines uuid))]))"
proof (intro conjI impI)
  assume "create_stream fm uuid (dict_get offer ''modality'' ''audio'')
      (dict_get offer ''mode'' ''send'') t1 t2 = Inl e"
  then show "create_webrtc_answer fm offer uuid t1 t2 t3 = Inl e"
    by (rule create_webrtc_answer_Inl)
next
  assume "uuid \<noteq> [] \<and> uuid \<noteq> ''None'' \<and> max_streams fm \<le> length (streams fm)"
  then show "create_webrtc_answer fm offer uuid t1 t2 t3 =
          Inl (ValueError ''Maximum number of streams reached'')"
    by (intro create_webrtc_answer_Inl create_stream_full) simp_all
next
  assume "uuid \<noteq> [] \<and> uuid \<noteq> ''None'' \<and> length (streams fm) < max_streams fm
        \<and> get_stream fm uuid \<noteq> None"
  then show "create_webrtc_answer fm offer uuid t1 t2 t3 =
          Inl (ValueError (''Stream '' @ uuid @ '' already exists''))"
    by (intro create_webrtc_answer_Inl create_stream_duplicate) simp_all
next
  assume h: "uuid \<noteq> [] \<and> uuid \<noteq> ''None'' \<and> length (streams fm) < max_streams fm
        \<and> get_stream fm uuid = None"
  have "create_stream fm uuid (dict_get offer ''modality'' ''audio'')
      (dict_get offer ''mode'' ''send'') t1 t2 =
     Inr (fm\<lparr>streams := streams fm
            @ [(uuid, FastRTCStream_init uuid (dict_get offer ''modality'' ''audio'')
                        (dict_get offer ''mode'' ''send'') t1 t2)]\<rparr>,
          FastRTCStream_init uuid (dict_get offer ''modality'' ''audio'')
            (dict_get offer ''mode'' ''send'') t1 t2,
          [(INFO, ''Created FastRTC stream '' @ uuid)])"
    using h by (intro create_stream_new) simp_all
  from create_webrtc_answer_Inr [OF this, of t3]
  show "create_webrtc_answer fm offer uuid t1 t2 t3 =
          Inr (fm\<lparr>streams := streams fm
                 @ [(uuid, FastRTCStream_init uuid (dict_get offer ''modality'' ''audio'')
                             (dict_get offer ''mode'' ''send'') t1 t2)]\<rparr>,
               PDict [(''status'', PStr ''success''),
                      (''sdp'', PStr (join [CHR 0x0A] (sdp_lines uuid))),
                      (''webrtc_id'', PStr uuid),
                      (''meta'',
                       PDict [(''modality'', PStr (dict_get offer ''modality'' ''audio'')),
                              (''mode'', PStr (dict_get offer ''mode'' ''send'')),
                              (''created_at'', PStr (isoformat t3))])],
               [(INFO, ''Created FastRTC stream '' @ uuid),
                (INFO, ''Generated SDP answer: '' @ join [CHR 0x0A] (sdp_lines uuid))])"
    by simp
qed

theorem create_webrtc_answer_outcome_witness:
  "create_webrtc_answer idle_manager [(''modality'', ''video'')] ''a'' noon noon noon
     = Inl (ValueError ''Stream a already exists'')
   \<and> create_webrtc_answer FastRTCManager_init [(''sdp'', ''v=0''), (''modality'', ''video'')]
       ''3f2b8c1e-7d4a-4e9b-a1c6-5b0d9e8f7a62'' noon noon (at_minute 12 1)
     = Inr (FastRTCManager_init
              \<lparr>streams :=
                 [(''3f2b8c1e-7d4a-4e9b-a1c6-5b0d9e8f7a62'',
                   FastRTCStream_init ''3f2b8c1e-7d4a-4e9b-a1c6-5b0d9e8f7a62'' ''video'' ''send''
                     noon noon)]\<rparr>,
            PDict [(''status'', PStr ''success''),
                   (''sdp'', PStr (join [CHR 0x0A]
                                     (sdp_lines ''3f2b8c1e-7d4a-4e9b-a1c6-5b0d9e8f7a62''))),
                   (''webrtc_id'', PStr ''3f2b8c1e-7d4a-4e9b-a1c6-5b0d9e8f7a62''),
                   (''meta'', PDict [(''modality'', PStr ''video''), (''mode'', PStr ''send''),
                                     (''created_at'', PStr ''2024-01-01T12:01:00'')])],
            [(INFO, ''Created FastRTC stream 3f2b8c1e-7d4a-4e9b-a1c6-5b0d9e8f7a62''),
             (INFO, ''Generated SDP answer: ''
                      @ join [CHR 0x0A] (sdp_lines ''3f2b8c1e-7d4a-4e9b-a1c6-5b0d9e8f7a62''))])"
proof -
  have i: "''a'' \<noteq> [] \<and> ''a'' \<noteq> ''None''
      \<and> length (streams idle_manager) < max_streams idle_manager
      \<and> get_stream idle_manager ''a'' \<noteq> None"
    by (simp add: get_stream_def idle_manager_def)
  from i create_webrtc_answer_outcome
    [where fm = idle_manager and uuid = "''a''" and offer = "[(''modality'', ''video'')]"
       and ?t1.0 = noon and ?t2.0 = noon and ?t3.0 = noon]
  have 1: "create_webrtc_answer idle_manager [(''modality'', ''video'')] ''a'' noon noon noon
     = Inl (ValueError ''Stream a already exists'')"
    by simp
  let ?u = "''3f2b8c1e-7d4a-4e9b-a1c6-5b0d9e8f7a62''"
  let ?offer = "[(''sdp'', ''v=0''), (''modality'', ''video'')]"
  have n: "?u \<noteq> [] \<and> ?u \<noteq> ''None''
      \<and> length (streams FastRTCManager_init) < max_streams FastRTCManager_init
      \<and> get_stream FastRTCManager_init ?u = None"
    by (simp add: get_stream_def FastRTCManager_init_def)
  have d: "dict_get ?offer ''modality'' ''audio'' = ''video''"
    "dict_get ?offer ''mode'' ''send'' = ''send''"
    "streams FastRTCManager_init = []"
    by (simp_all add: dict_get_def FastRTCManager_init_def)
  have t: "isoformat (at_minute 12 1) = ''2024-01-01T12:01:00''"
    by (simp add: isoformat_def at_minute_def noon_def zfill_def str_of_nat.simps)
  from n create_webrtc_answer_outcome
    [where fm = FastRTCManager_init and uuid = ?u and offer = ?offer
       and ?t1.0 = noon and ?t2.0 = noon and ?t3.0 = "at_minute 12 1"]
  have "create_webrtc_answer FastRTCManager_init ?offer ?u noon noon (at_minute 12 1) =
          Inr (FastRTCManager_init\<lparr>streams := streams FastRTCManager_init
                 @ [(?u, FastRTCStream_init ?u (dict_get ?offer ''modality'' ''audio'')
                             (dict_get ?offer ''mode'' ''send'') noon noon)]\<rparr>,
               PDict [(''status'', PStr ''success''),
                      (''sdp'', PStr (join [CHR 0x0A] (sdp_lines ?u))),
                      (''webrtc_id'', PStr ?u),
                      (''meta'',
                       PDict [(''modality'', PStr (dict_get ?offer ''modality'' ''audio'')),
                              (''mode'', PStr (dict_get ?offer ''mode'' ''send'')),
                              (''created_at'', PStr (isoformat (at_minute 12 1)))])],
               [(INFO, ''Created FastRTC stream '' @ ?u),
                (INFO, ''Generated SDP answer: '' @ join [CHR 0x0A] (sdp_lines ?u))])"
    by blast
  then have 2: "create_webrtc_answer FastRTCManager_init ?offer ?u noon noon (at_minute 12 1)
     = Inr (FastRTCManager_init\<lparr>streams := [(?u, FastRTCStream_init ?u ''video'' ''send'' noon noon)]\<rparr>,
            PDict [(''status'', PStr ''success''),
                   (''sdp'', PStr (join [CHR 0x0A] (sdp_lines ?u))),
                   (''webrtc_id'', PStr ?u),
                   (''meta'', PDict [(''modality'', PStr ''video''), (''mode'', PStr ''send''),
                                     (''created_at'', PStr ''2024-01-01T12:01:00'')])],
            [(INFO, ''Created FastRTC stream 3f2b8c1e-7d4a-4e9b-a1c6-5b0d9e8f7a62''),
             (INFO, ''Generated SDP answer: '' @ join [CHR 0x0A] (sdp_lines ?u))])"
    unfolding d t by simp
  from 1 2 show ?thesis by blast
qed

text \<open>
  Against the claim as the spec words it (a failure result is returned, nothing is
  raised): for the full registry the function raises.
\<close>

theorem answer_raises_at_capacity:
  "create_webrtc_answer full_manager
     [(''sdp'', ''v=0''), (''modality'', ''audio''), (''mode'', ''send'')]
     ''3f2b8c1e-7d4a-4e9b-a1c6-5b0d9e8f7a62'' noon noon noon
   = Inl (ValueError ''Maximum number of streams reached'')"
  by (intro create_webrtc_answer_Inl create_stream_full)
     (simp_all add: full_manager_props)

section \<open>The dispatch of protocol messages\<close>

lemma handle_fastrtc_message_no_id:
  assumes "dict_get message ''type'' PNone = PStr ''send_input''
         \<or> dict_get message ''type'' PNone = PStr ''fetch_output''"
    and "\<not> truthy (dict_get message ''webrtc_id'' PNone)"
  shows "handle_fastrtc_message fm message = Inr (PNone, [])"
  using assms by (auto simp: handle_fastrtc_message_def Let_def)

lemma get_stream_key_unhashable:
  "get_stream_key fm (PList xs) =
     Inl (TypeError (''unhashable type: '' @ [CHR 0x27] @ ''list'' @ [CHR 0x27]))"
  "get_stream_key fm (PDict kvs) =
     Inl (TypeError (''unhashable type: '' @ [CHR 0x27] @ ''dict'' @ [CHR 0x27]))"
  by (simp_all add: get_stream_key_def)

lemma handle_fastrtc_message_unhashable:
  assumes "dict_get message ''type'' PNone = PStr ''send_input''
         \<or> dict_get message ''type'' PNone = PStr ''fetch_output''"
    and "dict_get message ''webrtc_id'' PNone = PList (x # xs)"
  shows "handle_fastrtc_message fm message =
     Inl (TypeError (''unhashable type: '' @ [CHR 0x27] @ ''list'' @ [CHR 0x27]))"
  using assms by (auto simp: handle_fastrtc_message_def Let_def get_stream_key_unhashable)

lemma handle_fastrtc_message_unknown:
  assumes "dict_get message ''type'' PNone \<notin>
      {PStr ''send_input'', PStr ''fetch_output'', PStr ''stopword'', PStr ''error'',
       PStr ''warning'', PStr ''log''}"
  shows "handle_fastrtc_message fm message =
     Inr (PDict [(''status'', PStr ''error''),
                 (''message'', PStr (''Unknown message type: ''
                                      @ py_str (dict_get message ''type'' PNone)))], [])"
  using assms by (simp add: handle_fastrtc_message_def Let_def)

lemma handle_fastrtc_message_result:
  assumes "handle_fastrtc_message fm message = Inr (r, lg)" "r \<noteq> PNone"
  shows "\<exists>d. r = PDict d \<and>
     (map_of d ''status'' = Some (PStr ''success'') \<or> map_of d ''status'' = Some (PStr ''error'')
      \<or> map_of d ''status'' = Some (PStr ''warning''))"
  using assms unfolding handle_fastrtc_message_def Let_def
  by (auto split: if_splits sum.splits option.splits)

text \<open>
  Claim C6, against the code. The claim wants every message to get a result object with a
  \<^verbatim>\<open>status\<close>, and no message to make the function raise. A \<^verbatim>\<open>send_input\<close> or
  \<^verbatim>\<open>fetch_output\<close> message whose \<^verbatim>\<open>webrtc_id\<close> is missing, null or empty falls out of
  the \<^verbatim>\<open>if\<close> chain with no \<^verbatim>\<open>return\<close>: the function returns \<^verbatim>\<open>None\<close>, though it declares
  a dict. A \<^verbatim>\<open>webrtc_id\<close> that is a non-empty list makes the lookup raise. For a type tag
  that is none of the six known ones the code does what the claim says: the result has the
  status \<^verbatim>\<open>error\<close> and the message names the tag. Whatever else the function returns is a
  dict whose \<^verbatim>\<open>status\<close> is \<^verbatim>\<open>success\<close>, \<^verbatim>\<open>error\<close> or \<^verbatim>\<open>warning\<close>.
\<close>
theorem handle_fastrtc_message_outcome:
  "((dict_get message ''type'' PNone = PStr ''send_input''
      \<or> dict_get message ''type'' PNone = PStr ''fetch_output'')
     \<and> \<not> truthy (dict_get message ''webrtc_id'' PNone) \<longrightarrow>
      handle_fastrtc_message fm message = Inr (PNone, []))
   \<and> ((dict_get message ''type'' PNone = PStr ''send_input''
        \<or> dict_get message ''type'' PNone = PStr ''fetch_output'')
       \<and> dict_get message ''webrtc_id'' PNone = PList (x # xs) \<longrightarrow>
        handle_fastrtc_message fm message =
          Inl (TypeError (''unhashable type: '' @ [CHR 0x27] @ ''list'' @ [CHR 0x27])))
   \<and> (dict_get message ''type'' PNone \<notin>
        {PStr ''send_input'', PStr ''fetch_output'', PStr ''stopword'', PStr ''error'',
         PStr ''warning'', PStr ''log''} \<longrightarrow>
        handle_fastrtc_message fm message =
          Inr (PDict [(''status'', PStr ''error''),
                      (''message'', PStr (''Unknown message type: ''
                                           @ py_str (dict_get message ''type'' PNone)))], []))
   \<and> (handle_fastrtc_message fm message = Inr (r, lg) \<and> r \<noteq> PNone \<longrightarrow>
        (\<exists>d. r = PDict d \<and>
           (map_of d ''status'' = Some (PStr ''success'')
            \<or> map_of d ''status'' = Some (PStr ''error'')
            \<or> map_of d ''status'' = Some (PStr ''warning''))))"
proof (intro conjI impI)
  assume "(dict_get message ''type'' PNone = PStr ''send_input''
      \<or> dict_get message ''type'' PNone = PStr ''fetch_output'')
     \<and> \<not> truthy (dict_get message ''webrtc_id'' PNone)"
  then show "handle_fastrtc_message fm message = Inr (PNone, [])"
    by (intro handle_fastrtc_message_no_id) simp_all
next
  assume "(dict_get message ''type'' PNone = PStr ''send_input''
        \<or> dict_get message ''type'' PNone = PStr ''fetch_output'')
       \<and> dict_get message ''webrtc_id'' PNone = PList (x # xs)"
  then show "handle_fastrtc_message fm message =
          Inl (TypeError (''unhashable type: '' @ [CHR 0x27] @ ''list'' @ [CHR 0x27]))"
    by (intro handle_fastrtc_message_unhashable [where x = x and xs = xs]) simp_all
next
  assume "dict_get message ''type'' PNone \<notin>
        {PStr ''send_input'', PStr ''fetch_output'', PStr ''stopword'', PStr ''error'',
         PStr ''warning'', PStr ''log''}"
  then show "handle_fastrtc_message fm message =
          Inr (PDict [(''status'', PStr ''error''),
                      (''message'', PStr (''Unknown message type: ''
                                           @ py_str (dict_get message ''type'' PNone)))], [])"
    by (rule handle_fastrtc_message_unknown)
next
  assume "handle_fastrtc_message fm message = Inr (r, lg) \<and> r \<noteq> PNone"
  then show "\<exists>d. r = PDict d \<and>
           (map_of d ''status'' = Some (PStr ''success'')
            \<or> map_of d ''status'' = Some (PStr ''error'')
            \<or> map_of d ''status'' = Some (PStr ''warning''))"
    using handle_fastrtc_message_result [of fm message r lg] by simp
qed

theorem handle_fastrtc_message_outcome_witness:
  "handle_fastrtc_message FastRTCManager_init [(''type'', PStr ''send_input'')] = Inr (PNone, [])
   \<and> handle_fastrtc_message FastRTCManager_init
        [(''type'', PStr ''fetch_output''), (''webrtc_id'', PStr [])] = Inr (PNone, [])
   \<and> handle_fastrtc_message FastRTCManager_init
        [(''type'', PStr ''send_input''), (''webrtc_id'', PList [PStr ''a''])]
      = Inl (TypeError (''unhashable type: '' @ [CHR 0x27] @ ''list'' @ [CHR 0x27]))
   \<and> handle_fastrtc_message FastRTCManager_init [(''type'', PStr ''bogus'')]
      = Inr (PDict [(''status'', PStr ''error''),
                    (''message'', PStr ''Unknown message type: bogus'')], [])
   \<and> handle_fastrtc_message FastRTCManager_init [(''webrtc_id'', PStr ''a'')]
      = Inr (PDict [(''status'', PStr ''error''),
                    (''message'', PStr ''Unknown message type: None'')], [])"
proof -
  from handle_fastrtc_message_outcome
    [where message = "[(''type'', PStr ''send_input'')]" and fm = FastRTCManager_init]
  have 1: "handle_fastrtc_message FastRTCManager_init [(''type'', PStr ''send_input'')]
      = Inr (PNone, [])"
    by (simp add: dict_get_def)
  from handle_fastrtc_message_outcome
    [where message = "[(''type'', PStr ''fetch_output''), (''webrtc_id'', PStr [])]"
       and fm = FastRTCManager_init]
  have 2: "handle_fastrtc_message FastRTCManager_init
        [(''type'', PStr ''fetch_output''), (''webrtc_id'', PStr [])] = Inr (PNone, [])"
    by (simp add: dict_get_def)
  from handle_fastrtc_message_outcome
    [where message = "[(''type'', PStr ''send_input''), (''webrtc_id'', PList [PStr ''a''])]"
       and fm = FastRTCManager_init and x = "PStr ''a''" and xs = "[]"]
  have 3: "handle_fastrtc_message FastRTCManager_init
        [(''type'', PStr ''send_input''), (''webrtc_id'', PList [PStr ''a''])]
      = Inl (TypeError (''unhashable type: '' @ [CHR 0x27] @ ''list'' @ [CHR 0x27]))"
    by (simp add: dict_get_def)
  from handle_fastrtc_message_outcome
    [where message = "[(''type'', PStr ''bogus'')]" and fm = FastRTCManager_init]
  have 4: "handle_fastrtc_message FastRTCManager_init [(''type'', PStr ''bogus'')]
      = Inr (PDict [(''status'', PStr ''error''),
                    (''message'', PStr ''Unknown message type: bogus'')], [])"
    by (simp add: dict_get_def py_str_def)
  from handle_fastrtc_message_outcome
    [where message = "[(''webrtc_id'', PStr ''a'')]" and fm = FastRTCManager_init]
  have 5: "handle_fastrtc_message FastRTCManager_init [(''webrtc_id'', PStr ''a'')]
      = Inr (PDict [(''status'', PStr ''error''),
                    (''message'', PStr ''Unknown message type: None'')], [])"
    by (simp add: dict_get_def py_str_def)
  from 1 2 3 4 5 show ?thesis by blast
qed

section \<open>Starting and stopping\<close>

lemma get_stream_key_PStr [simp]: "get_stream_key fm (PStr wid) = Inr (get_stream fm wid)"
  by (simp add: get_stream_key_def)

lemma start_stream_of_present:
  "wid \<noteq> [] \<Longrightarrow> get_stream fm wid = Some s \<Longrightarrow>
   start_stream_of fm (PStr wid) now =
     Inr (put_stream fm wid (s\<lparr>is_active := True, last_activity := now\<rparr>),
          [(INFO, ''Started FastRTC stream for '' @ webrtc_id s)])"
  by (simp add: start_stream_of_def start_streaming_def py_str_def)

lemma stop_stream_of_present:
  "wid \<noteq> [] \<Longrightarrow> get_stream fm wid = Some s \<Longrightarrow>
   stop_stream_of fm (PStr wid) =
     Inr (put_stream fm wid (s\<lparr>is_active := False\<rparr>),
          [(INFO, ''Stopped FastRTC stream for '' @ webrtc_id s)])"
  by (simp add: stop_stream_of_def stop_streaming_def py_str_def)

lemma start_stop_stream_of_absent:
  "get_stream fm wid = None \<Longrightarrow> start_stream_of fm (PStr wid) now = Inr (fm, [])"
  "get_stream fm wid = None \<Longrightarrow> stop_stream_of fm (PStr wid) = Inr (fm, [])"
  by (simp_all add: start_stream_of_def stop_stream_of_def)

lemma handle_control_message_start:
  assumes "map_of (connection_metadata cm) client = Some md"
    and "dict_get message ''type'' PNone = PStr ''start_streaming''"
    and "start_stream_of fm (dict_get message ''webrtc_id'' PNone) t1 = Inr (fm', lg)"
  shows "handle_control_message cm fm client message t1 t2 =
     Inr (send_personal_message
            (cm\<lparr>connection_metadata :=
                  AList.update client (md\<lparr>audio_streaming := True\<rparr>) (connection_metadata cm)\<rparr>)
            (PDict [(''type'', PStr ''streaming_started''), (''client_id'', PStr client),
                    (''timestamp'', PStr (isoformat t2))])
            client,
          fm', lg @ [(INFO, ''Audio streaming started for client '' @ client)])"
  using assms by (simp add: handle_control_message_def Let_def set_audio_streaming_def)

lemma handle_control_message_stop:
  assumes "map_of (connection_metadata cm) client = Some md"
    and "dict_get message ''type'' PNone = PStr ''stop_streaming''"
    and "stop_stream_of fm (dict_get message ''webrtc_id'' PNone) = Inr (fm', lg)"
  shows "handle_control_message cm fm client message t1 t2 =
     Inr (send_personal_message
            (cm\<lparr>connection_metadata :=
                  AList.update client (md\<lparr>audio_streaming := False\<rparr>) (connection_metadata cm)\<rparr>)
            (PDict [(''type'', PStr ''streaming_stopped''), (''client_id'', PStr client),
                    (''timestamp'', PStr (isoformat t2))])
            client,
          fm', lg @ [(INFO, ''Audio streaming stopped for client '' @ client)])"
  using assms by (simp add: handle_control_message_def Let_def set_audio_streaming_def)

text \<open>
  Claim C9, as the code has it. Starting is \<^verbatim>\<open>start_streaming\<close> on the stream that the
  control message \<^verbatim>\<open>start_streaming\<close> names: from whatever state, the stream is active
  afterwards and its \<^verbatim>\<open>last_activity\<close> is the time of the call (so a stream that was
  active already keeps its flag and gets a new \<^verbatim>\<open>last_activity\<close>). Stopping is
  \<^verbatim>\<open>stop_streaming\<close>: from whatever state, the stream is not active afterwards and nothing
  else of it has changed. An id that is not in the registry changes nothing and is no
  error. Whether the id was found or not, the connection's flag is set and the client gets
  the reply \<^verbatim>\<open>streaming_started\<close> or \<^verbatim>\<open>streaming_stopped\<close>.
\<close>
theorem start_stop_outcome:
  "(wid \<noteq> [] \<and> get_stream fm wid = Some s \<longrightarrow>
      start_stream_of fm (PStr wid) now =
        Inr (put_stream fm wid (s\<lparr>is_active := True, last_activity := now\<rparr>),
             [(INFO, ''Started FastRTC stream for '' @ webrtc_id s)])
      \<and> stop_stream_of fm (PStr wid) =
          Inr (put_stream fm wid (s\<lparr>is_active := False\<rparr>),
               [(INFO, ''Stopped FastRTC stream for '' @ webrtc_id s)]))
   \<and> (get_stream fm wid = None \<longrightarrow>
        start_stream_of fm (PStr wid) now = Inr (fm, [])
        \<and> stop_stream_of fm (PStr wid) = Inr (fm, []))
   \<and> (map_of (connection_metadata cm) client = Some md
        \<and> dict_get message ''type'' PNone = PStr ''start_streaming''
        \<and> start_stream_of fm (dict_get message ''webrtc_id'' PNone) now = Inr (fm', lg) \<longrightarrow>
        handle_control_message cm fm client message now t2 =
          Inr (send_personal_message
                 (cm\<lparr>connection_metadata :=
                       AList.update client (md\<lparr>audio_streaming := True\<rparr>)
                         (connection_metadata cm)\<rparr>)
                 (PDict [(''type'', PStr ''streaming_started''), (''client_id'', PStr client),
                         (''timestamp'', PStr (isoformat t2))])
                 client,
               fm', lg @ [(INFO, ''Audio streaming started for client '' @ client)]))
   \<and> (map_of (connection_metadata cm) client = Some md
        \<and> dict_get message ''type'' PNone = PStr ''stop_streaming''
        \<and> stop_stream_of fm (dict_get message ''webrtc_id'' PNone) = Inr (fm', lg) \<longrightarrow>
        handle_control_message cm fm client message now t2 =
          Inr (send_personal_message
                 (cm\<lparr>connection_metadata :=
                       AList.update client (md\<lparr>audio_streaming := False\<rparr>)
                         (connection_metadata cm)\<rparr>)
                 (PDict [(''type'', PStr ''streaming_stopped''), (''client_id'', PStr client),
                         (''timestamp'', PStr (isoformat t2))])
                 client,
               fm', lg @ [(INFO, ''Audio streaming stopped for client '' @ client)]))"
proof (intro conjI impI)
  assume h: "wid \<noteq> [] \<and> get_stream fm wid = Some s"
  then show "start_stream_of fm (PStr wid) now =
        Inr (put_stream fm wid (s\<lparr>is_active := True, last_activity := now\<rparr>),
             [(INFO, ''Started FastRTC stream for '' @ webrtc_id s)])"
    by (simp add: start_stream_of_present)
  from h show "stop_stream_of fm (PStr wid) =
          Inr (put_stream fm wid (s\<lparr>is_active := False\<rparr>),
               [(INFO, ''Stopped FastRTC stream for '' @ webrtc_id s)])"
    by (simp add: stop_stream_of_present)
next
  assume "get_stream fm wid = None"
  then show "start_stream_of fm (PStr wid) now = Inr (fm, [])"
    and "stop_stream_of fm (PStr wid) = Inr (fm, [])"
    by (simp_all add: start_stop_stream_of_absent)
next
  assume "map_of (connection_metadata cm) client = Some md
        \<and> dict_get message ''type'' PNone = PStr ''start_streaming''
        \<and> start_stream_of fm (dict_get message ''webrtc_id'' PNone) now = Inr (fm', lg)"
  then show "handle_control_message cm fm client message now t2 =
          Inr (send_personal_message
                 (cm\<lparr>connection_metadata :=
                       AList.update client (md\<lparr>audio_streaming := True\<rparr>)
                         (connection_metadata cm)\<rparr>)
                 (PDict [(''type'', PStr ''streaming_started''), (''client_id'', PStr client),
                         (''timestamp'', PStr (isoformat t2))])
                 client,
               fm', lg @ [(INFO, ''Audio streaming started for client '' @ client)])"
    by (intro handle_control_message_start) simp_all
next
  assume "map_of (connection_metadata cm) client = Some md
        \<and> dict_get message ''type'' PNone = PStr ''stop_streaming''
        \<and> stop_stream_of fm (dict_get message ''webrtc_id'' PNone) = Inr (fm', lg)"
  then show "handle_control_message cm fm client message now t2 =
          Inr (send_personal_message
                 (cm\<lparr>connection_metadata :=
                       AList.update client (md\<lparr>audio_streaming := False\<rparr>)
                         (connection_metadata cm)\<rparr>)
                 (PDict [(''type'', PStr ''streaming_stopped''), (''client_id'', PStr client),
                         (''timestamp'', PStr (isoformat t2))])
                 client,
               fm', lg @ [(INFO, ''Audio streaming stopped for client '' @ client)])"
    by (intro handle_control_message_stop) simp_all
qed


theorem start_stop_outcome_witness:
  "start_stream_of idle_manager (PStr ''a'') (at_minute 12 1) =
     Inr (idle_manager
            \<lparr>streams :=
               [(''a'', (FastRTCStream_init ''a'' ''audio'' ''send'' noon noon)
                          \<lparr>is_active := True, last_activity := at_minute 12 1\<rparr>)]\<rparr>,
          [(INFO, ''Started FastRTC stream for a'')])
   \<and> start_stream_of live_manager (PStr ''a'') (at_minute 12 1) =
       Inr (live_manager
              \<lparr>streams := [(''a'', live_stream\<lparr>last_activity := at_minute 12 1\<rparr>)]\<rparr>,
            [(INFO, ''Started FastRTC stream for a'')])
   \<and> stop_stream_of live_manager (PStr ''a'') =
       Inr (idle_manager, [(INFO, ''Stopped FastRTC stream for a'')])
   \<and> stop_stream_of idle_manager (PStr ''a'') =
       Inr (idle_manager, [(INFO, ''Stopped FastRTC stream for a'')])
   \<and> start_stream_of idle_manager (PStr ''ghost'') (at_minute 12 1) = Inr (idle_manager, [])
   \<and> stop_stream_of idle_manager (PStr ''ghost'') = Inr (idle_manager, [])
   \<and> handle_control_message one_client live_manager ''c1''
        [(''type'', PStr ''stop_streaming''), (''webrtc_id'', PStr ''a'')]
        (at_minute 12 1) (at_minute 12 2) =
       Inr (\<lparr>active_connections =
               [(''c1'', [PDict [(''type'', PStr ''streaming_stopped''),
                                 (''client_id'', PStr ''c1''),
                                 (''timestamp'', PStr ''2024-01-01T12:02:00'')]])],
             connection_metadata =
               [(''c1'', \<lparr>connected_at = noon, conn_last_activity = noon,
                          audio_streaming = False\<rparr>)]\<rparr>,
            idle_manager,
            [(INFO, ''Stopped FastRTC stream for a''),
             (INFO, ''Audio streaming stopped for client c1'')])"
proof -
  let ?init = "FastRTCStream_init ''a'' ''audio'' ''send'' noon noon"
  have g: "get_stream idle_manager ''a'' = Some ?init"
    "get_stream live_manager ''a'' = Some live_stream"
    "get_stream idle_manager ''ghost'' = None"
    by (simp_all add: get_stream_def idle_manager_def live_manager_def)
  have w: "webrtc_id ?init = ''a''" "webrtc_id live_stream = ''a''"
    by (simp_all add: live_stream_def FastRTCStream_init_def)
  note idle = start_stop_outcome
    [where fm = idle_manager and wid = "''a''" and s = ?init and now = "at_minute 12 1"]
  note live = start_stop_outcome
    [where fm = live_manager and wid = "''a''" and s = live_stream and now = "at_minute 12 1"]
  note ghost = start_stop_outcome
    [where fm = idle_manager and wid = "''ghost''" and now = "at_minute 12 1"]
  from idle g(1) have "start_stream_of idle_manager (PStr ''a'') (at_minute 12 1) =
        Inr (put_stream idle_manager ''a'' (?init\<lparr>is_active := True, last_activity := at_minute 12 1\<rparr>),
             [(INFO, ''Started FastRTC stream for '' @ webrtc_id ?init)])"
    by simp
  then have 1: "start_stream_of idle_manager (PStr ''a'') (at_minute 12 1) =
     Inr (idle_manager
            \<lparr>streams := [(''a'', ?init\<lparr>is_active := True, last_activity := at_minute 12 1\<rparr>)]\<rparr>,
          [(INFO, ''Started FastRTC stream for a'')])"
    by (simp add: w put_stream_def idle_manager_def)
  from live g(2) have "start_stream_of live_manager (PStr ''a'') (at_minute 12 1) =
        Inr (put_stream live_manager ''a''
               (live_stream\<lparr>is_active := True, last_activity := at_minute 12 1\<rparr>),
             [(INFO, ''Started FastRTC stream for '' @ webrtc_id live_stream)])"
    by simp
  then have 2: "start_stream_of live_manager (PStr ''a'') (at_minute 12 1) =
       Inr (live_manager
              \<lparr>streams := [(''a'', live_stream\<lparr>last_activity := at_minute 12 1\<rparr>)]\<rparr>,
            [(INFO, ''Started FastRTC stream for a'')])"
    by (simp add: w put_stream_def live_manager_def) (simp add: live_stream_def)
  from live g(2) have "stop_stream_of live_manager (PStr ''a'') =
          Inr (put_stream live_manager ''a'' (live_stream\<lparr>is_active := False\<rparr>),
               [(INFO, ''Stopped FastRTC stream for '' @ webrtc_id live_stream)])"
    by simp
  then have 3: "stop_stream_of live_manager (PStr ''a'') =
       Inr (idle_manager, [(INFO, ''Stopped FastRTC stream for a'')])"
    by (simp add: w put_stream_def live_manager_def idle_manager_def live_stream_def
        FastRTCStream_init_def)
  from idle g(1) have "stop_stream_of idle_manager (PStr ''a'') =
          Inr (put_stream idle_manager ''a'' (?init\<lparr>is_active := False\<rparr>),
               [(INFO, ''Stopped FastRTC stream for '' @ webrtc_id ?init)])"
    by simp
  then have 4: "stop_stream_of idle_manager (PStr ''a'') =
       Inr (idle_manager, [(INFO, ''Stopped FastRTC stream for a'')])"
    by (simp add: w put_stream_def idle_manager_def FastRTCStream_init_def)
  from ghost g(3)
  have 5: "start_stream_of idle_manager (PStr ''ghost'') (at_minute 12 1) = Inr (idle_manager, [])"
    and 6: "stop_stream_of idle_manager (PStr ''ghost'') = Inr (idle_manager, [])"
    by simp_all
  let ?msg = "[(''type'', PStr ''stop_streaming''), (''webrtc_id'', PStr ''a'')]"
  let ?md = "\<lparr>connected_at = noon, conn_last_activity = noon, audio_streaming = False\<rparr>"
  have c: "map_of (connection_metadata one_client) ''c1'' = Some ?md
        \<and> dict_get ?msg ''type'' PNone = PStr ''stop_streaming''
        \<and> stop_stream_of live_manager (dict_get ?msg ''webrtc_id'' PNone) =
            Inr (idle_manager, [(INFO, ''Stopped FastRTC stream for a'')])"
    using 3 by (simp add: one_client_def dict_get_def)
  have t: "isoformat (at_minute 12 2) = ''2024-01-01T12:02:00''"
    by (simp add: isoformat_def at_minute_def noon_def zfill_def str_of_nat.simps)
  from c start_stop_outcome
    [where cm = one_client and client = "''c1''" and md = ?md and message = ?msg
       and fm = live_manager and fm' = idle_manager
       and lg = "[(INFO, ''Stopped FastRTC stream for a'')]"
       and now = "at_minute 12 1" and ?t2.0 = "at_minute 12 2"]
  have "handle_control_message one_client live_manager ''c1'' ?msg (at_minute 12 1) (at_minute 12 2) =
          Inr (send_personal_message
                 (one_client\<lparr>connection_metadata :=
                       AList.update ''c1'' (?md\<lparr>audio_streaming := False\<rparr>)
                         (connection_metadata one_client)\<rparr>)
                 (PDict [(''type'', PStr ''streaming_stopped''), (''client_id'', PStr ''c1''),
                         (''timestamp'', PStr (isoformat (at_minute 12 2)))])
                 ''c1'',
               idle_manager,
               [(INFO, ''Stopped FastRTC stream for a'')]
                 @ [(INFO, ''Audio streaming stopped for client '' @ ''c1'')])"
    by blast
  then have 7: "handle_control_message one_client live_manager ''c1'' ?msg
        (at_minute 12 1) (at_minute 12 2) =
       Inr (\<lparr>active_connections =
               [(''c1'', [PDict [(''type'', PStr ''streaming_stopped''),
                                 (''client_id'', PStr ''c1''),
                                 (''timestamp'', PStr ''2024-01-01T12:02:00'')]])],
             connection_metadata =
               [(''c1'', \<lparr>connected_at = noon, conn_last_activity = noon,
                          audio_streaming = False\<rparr>)]\<rparr>,
            idle_manager,
            [(INFO, ''Stopped FastRTC stream for a''),
             (INFO, ''Audio streaming stopped for client c1'')])"
    by (simp add: t send_personal_message_def one_client_def)
  from 1 2 3 4 5 6 7 show ?thesis by blast
qed

text \<open>
  Against the claim as the spec words it (an id that is absent fails as not found): for
  the id \<^verbatim>\<open>"ghost"\<close>, which the registry does not hold, both control messages return
  without an error and send the reply of success.
\<close>

theorem start_of_unknown_stream_reports_success:
  "get_stream FastRTCManager_init ''ghost'' = None
   \<and> handle_control_message one_client FastRTCManager_init ''c1''
        [(''type'', PStr ''start_streaming''), (''webrtc_id'', PStr ''ghost'')]
        (at_minute 12 1) (at_minute 12 2) =
       Inr (\<lparr>active_connections =
               [(''c1'', [PDict [(''type'', PStr ''streaming_started''),
                                 (''client_id'', PStr ''c1''),
                                 (''timestamp'', PStr ''2024-01-01T12:02:00'')]])],
             connection_metadata =
               [(''c1'', \<lparr>connected_at = noon, conn_last_activity = noon,
                          audio_streaming = True\<rparr>)]\<rparr>,
            FastRTCManager_init,
            [(INFO, ''Audio streaming started for client c1'')])
   \<and> handle_control_message one_client FastRTCManager_init ''c1''
        [(''type'', PStr ''stop_streaming''), (''webrtc_id'', PStr ''ghost'')]
        (at_minute 12 1) (at_minute 12 2) =
       Inr (\<lparr>active_connections =
               [(''c1'', [PDict [(''type'', PStr ''streaming_stopped''),
                                 (''client_id'', PStr ''c1''),
                                 (''timestamp'', PStr ''2024-01-01T12:02:00'')]])],
             connection_metadata =
               [(''c1'', \<lparr>connected_at = noon, conn_last_activity = noon,
                          audio_streaming = False\<rparr>)]\<rparr>,
            FastRTCManager_init,
            [(INFO, ''Audio streaming stopped for client c1'')])"
proof -
  have g: "get_stream FastRTCManager_init ''ghost'' = None"
    by (simp add: get_stream_def FastRTCManager_init_def)
  have t: "isoformat (at_minute 12 2) = ''2024-01-01T12:02:00''"
    by (simp add: isoformat_def at_minute_def noon_def zfill_def str_of_nat.simps)
  let ?md = "\<lparr>connected_at = noon, conn_last_activity = noon, audio_streaming = False\<rparr>"
  have m: "map_of (connection_metadata one_client) ''c1'' = Some ?md"
    by (simp add: one_client_def)
  have 1: "handle_control_message one_client FastRTCManager_init ''c1''
        [(''type'', PStr ''start_streaming''), (''webrtc_id'', PStr ''ghost'')]
        (at_minute 12 1) (at_minute 12 2) =
       Inr (\<lparr>active_connections =
               [(''c1'', [PDict [(''type'', PStr ''streaming_started''),
                                 (''client_id'', PStr ''c1''),
                                 (''timestamp'', PStr ''2024-01-01T12:02:00'')]])],
             connection_metadata =
               [(''c1'', \<lparr>connected_at = noon, conn_last_activity = noon,
                          audio_streaming = True\<rparr>)]\<rparr>,
            FastRTCManager_init,
            [(INFO, ''Audio streaming started for client c1'')])"
    by (subst handle_control_message_start [OF m, where fm' = FastRTCManager_init and lg = "[]"])
       (simp_all add: dict_get_def start_stop_stream_of_absent g t send_personal_message_def
          one_client_def)
  have 2: "handle_control_message one_client FastRTCManager_init ''c1''
        [(''type'', PStr ''stop_streaming''), (''webrtc_id'', PStr ''ghost'')]
        (at_minute 12 1) (at_minute 12 2) =
       Inr (\<lparr>active_connections =
               [(''c1'', [PDict [(''type'', PStr ''streaming_stopped''),
                                 (''client_id'', PStr ''c1''),
                                 (''timestamp'', PStr ''2024-01-01T12:02:00'')]])],
             connection_metadata =
               [(''c1'', \<lparr>connected_at = noon, conn_last_activity = noon,
                          audio_streaming = False\<rparr>)]\<rparr>,
            FastRTCManager_init,
            [(INFO, ''Audio streaming stopped for client c1'')])"
    by (subst handle_control_message_stop [OF m, where fm' = FastRTCManager_init and lg = "[]"])
       (simp_all add: dict_get_def start_stop_stream_of_absent g t send_personal_message_def
          one_client_def)
  from g 1 2 show ?thesis by blast
qed

end
